theory Spec2Isabelle
  imports Complex_Main "HOL-Library.Word" "HOL-Library.Signed_Division"
begin

unbundle bit_operations_syntax

section \<open>Array construction (numpy/core/src/multiarray/ctors.c)\<close>

subsection \<open>Separator normalisation: \<open>swab_separator\<close>\<close>

text \<open>
  C strings are modelled as \<open>string\<close> (the characters before the terminating NUL).
  \<open>isspace\<close> is the C library's classification in the "C" locale: space, and the
  control characters \<open>\t \n \v \f \r\<close> (codes 9 to 13).
\<close>

definition isspace :: "char \<Rightarrow> bool" where
  "isspace c = (c = CHR '' '' \<or> ((9::nat) \<le> of_char c \<and> (of_char c :: nat) \<le> 13))"

text \<open>
  The \<open>while (*sep != '\0')\<close> loop of \<open>swab_separator\<close>. \<open>out\<close> is the text written
  so far between \<open>start\<close> and \<open>s\<close>.
\<close>

fun swab_loop :: "string \<Rightarrow> bool \<Rightarrow> string \<Rightarrow> string" where
  "swab_loop [] skip_space out = out"
| "swab_loop (c # sep) skip_space out =
     (if isspace c then
        (if skip_space then swab_loop sep skip_space out
         else swab_loop sep True (out @ [CHR '' '']))
      else swab_loop sep False (out @ [c]))"

definition swab_separator :: "string \<Rightarrow> string" where
  "swab_separator sep =
     (let s0 = (if sep \<noteq> [] \<and> \<not> isspace (hd sep) then [CHR '' ''] else []);
          s1 = swab_loop sep False s0;
          s2 = (if s1 \<noteq> [] \<and> last s1 = CHR '' '' then s1 @ [CHR '' ''] else s1)
      in s2)"


subsection \<open>Strided copy primitives: \<open>_strided_byte_swap\<close>, \<open>byte_swap_vector\<close>, \<open>copy_and_swap\<close>\<close>

text \<open>
  Raw memory is a function from byte addresses to bytes; a \<open>char *\<close> is an address.
  Sizes, counts and strides are unbounded integers here: none of the properties below
  depends on overflow. \<open>memcpy\<close> is the C library's, for regions that do not overlap.
\<close>

type_synonym memory = "int \<Rightarrow> 8 word"

definition memcpy :: "memory \<Rightarrow> int \<Rightarrow> int \<Rightarrow> int \<Rightarrow> memory" where
  "memcpy m d s n = (\<lambda>a. if d \<le> a \<and> a < d + n then m (s + (a - d)) else m a)"

text \<open>The statement group \<open>c = *a; *a = *b; *b = c;\<close>.\<close>

definition swap_bytes :: "memory \<Rightarrow> int \<Rightarrow> int \<Rightarrow> memory" where
  "swap_bytes m a b = (let c = m a; m1 = m(a := m b) in m1(b := c))"

text \<open>C integer division truncates towards zero.\<close>

definition c_div :: "int \<Rightarrow> int \<Rightarrow> int" where
  "c_div a b = sgn a * sgn b * (\<bar>a\<bar> div \<bar>b\<bar>)"

text \<open>\<open>case 4\<close>: \<open>for (a = p; n > 0; n--, a += stride - 1)\<close>.\<close>

function swap4_loop :: "memory \<Rightarrow> int \<Rightarrow> int \<Rightarrow> int \<Rightarrow> memory" where
  "swap4_loop m a stride n =
     (if n > 0 then
        (let b = a + 3;
             m1 = swap_bytes m a b; a1 = a + 1; b1 = b - 1;
             m2 = swap_bytes m1 a1 b1
         in swap4_loop m2 (a1 + (stride - 1)) stride (n - 1))
      else m)"
  by pat_completeness auto
termination
  by (relation "measure (\<lambda>(m, a, stride, n). nat n)") auto

text \<open>\<open>case 8\<close>: \<open>for (a = p; n > 0; n--, a += stride - 3)\<close>.\<close>

function swap8_loop :: "memory \<Rightarrow> int \<Rightarrow> int \<Rightarrow> int \<Rightarrow> memory" where
  "swap8_loop m a stride n =
     (if n > 0 then
        (let b = a + 7;
             m1 = swap_bytes m a b; a1 = a + 1; b1 = b - 1;
             m2 = swap_bytes m1 a1 b1; a2 = a1 + 1; b2 = b1 - 1;
             m3 = swap_bytes m2 a2 b2; a3 = a2 + 1; b3 = b2 - 1;
             m4 = swap_bytes m3 a3 b3
         in swap8_loop m4 (a3 + (stride - 3)) stride (n - 1))
      else m)"
  by pat_completeness auto
termination
  by (relation "measure (\<lambda>(m, a, stride, n). nat n)") auto

text \<open>\<open>case 2\<close>: \<open>for (a = p; n > 0; n--, a += stride)\<close>.\<close>

function swap2_loop :: "memory \<Rightarrow> int \<Rightarrow> int \<Rightarrow> int \<Rightarrow> memory" where
  "swap2_loop m a stride n =
     (if n > 0 then
        (let b = a + 1;
             m1 = swap_bytes m a b
         in swap2_loop m1 (a + stride) stride (n - 1))
      else m)"
  by pat_completeness auto
termination
  by (relation "measure (\<lambda>(m, a, stride, n). nat n)") auto

text \<open>
  \<open>default\<close>: the inner loop \<open>for (j = 0; j < m; j++) { c=*a; *a++ = *b; *b-- = c; }\<close>
  (with \<open>mm\<close> for the C variable \<open>m\<close> and \<open>sz\<close> for \<open>size\<close>), which returns the memory and the advanced \<open>a\<close>,
  and the outer loop \<open>for (a = p; n > 0; n--, a += stride - m)\<close>.
\<close>

function swap_inner :: "memory \<Rightarrow> int \<Rightarrow> int \<Rightarrow> int \<Rightarrow> int \<Rightarrow> memory \<times> int" where
  "swap_inner m a b j mm =
     (if j < mm then swap_inner (swap_bytes m a b) (a + 1) (b - 1) (j + 1) mm
      else (m, a))"
  by pat_completeness auto
termination
  by (relation "measure (\<lambda>(m, a, b, j, mm). nat (mm - j))") auto

function swapn_loop :: "memory \<Rightarrow> int \<Rightarrow> int \<Rightarrow> int \<Rightarrow> int \<Rightarrow> int \<Rightarrow> memory" where
  "swapn_loop m a stride n sz mm =
     (if n > 0 then
        (let b = a + (sz - 1);
             (m1, a1) = swap_inner m a b 0 mm
         in swapn_loop m1 (a1 + (stride - mm)) stride (n - 1) sz mm)
      else m)"
  by pat_completeness auto
termination
  by (relation "measure (\<lambda>(m, a, stride, n, sz, mm). nat n)") auto

definition strided_byte_swap :: "memory \<Rightarrow> int \<Rightarrow> int \<Rightarrow> int \<Rightarrow> int \<Rightarrow> memory" where
  "strided_byte_swap m p stride n sz =
     (if sz = 1 then m
      else if sz = 4 then swap4_loop m p stride n
      else if sz = 8 then swap8_loop m p stride n
      else if sz = 2 then swap2_loop m p stride n
      else swapn_loop m p stride n sz (c_div sz 2))"

definition byte_swap_vector :: "memory \<Rightarrow> int \<Rightarrow> int \<Rightarrow> int \<Rightarrow> memory" where
  "byte_swap_vector m p n sz = strided_byte_swap m p sz n sz"

text \<open>
  The \<open>else\<close> branch of \<open>copy_and_swap\<close>:
  \<open>for (i = 0; i < numitems; i++) { memcpy(d1, s1, itemsize); d1 += itemsize; s1 += srcstrides; }\<close>.
  It returns the memory and the final value of \<open>d1\<close>.
\<close>

function copy_loop ::
  "memory \<Rightarrow> int \<Rightarrow> int \<Rightarrow> int \<Rightarrow> int \<Rightarrow> int \<Rightarrow> int \<Rightarrow> memory \<times> int" where
  "copy_loop m d1 s1 itemsize srcstrides i numitems =
     (if i < numitems then
        copy_loop (memcpy m d1 s1 itemsize) (d1 + itemsize) (s1 + srcstrides)
          itemsize srcstrides (i + 1) numitems
      else (m, d1))"
  by pat_completeness auto
termination
  by (relation "measure (\<lambda>(m, d1, s1, itemsize, srcstrides, i, numitems). nat (numitems - i))")
     auto

definition copy_and_swap ::
  "memory \<Rightarrow> int \<Rightarrow> int \<Rightarrow> int \<Rightarrow> int \<Rightarrow> int \<Rightarrow> bool \<Rightarrow> memory" where
  "copy_and_swap m dst src itemsize numitems srcstrides swap =
     (let s1 = src; d1 = dst;
          (m1, d1') =
            (if numitems = 1 \<or> itemsize = srcstrides
             then (memcpy m d1 s1 (itemsize * numitems), d1)
             else copy_loop m d1 s1 itemsize srcstrides 0 numitems)
      in if swap then byte_swap_vector m1 d1' numitems itemsize else m1)"

text \<open>
  What the comment on \<open>copy_and_swap\<close> and its fast path describe: the strided gather
  into \<open>dst\<close>, then the byte swap of the \<open>numitems\<close> items at \<open>dst\<close>.
\<close>

definition gather_then_swap ::
  "memory \<Rightarrow> int \<Rightarrow> int \<Rightarrow> int \<Rightarrow> int \<Rightarrow> int \<Rightarrow> memory" where
  "gather_then_swap m dst src itemsize numitems srcstrides =
     byte_swap_vector (fst (copy_loop m dst src itemsize srcstrides 0 numitems))
       dst numitems itemsize"

definition mem_of :: "(int \<times> 8 word) list \<Rightarrow> memory" where
  "mem_of kvs = (\<lambda>a. case map_of kvs a of None \<Rightarrow> 0 | Some v \<Rightarrow> v)"

definition peek :: "memory \<Rightarrow> int \<Rightarrow> nat \<Rightarrow> 8 word list" where
  "peek m a n = map (\<lambda>k. m (a + int k)) [0..<n]"


subsection \<open>Arrays, descriptors and flags\<close>

text \<open>
  \<open>npy_intp\<close>, \<open>npy_uintp\<close> and \<open>size_t\<close> are the 64-bit integers of an LP64 platform:
  one word type, read as signed where the C type is signed (\<open><s\<close>, \<open>\<le>s\<close>, \<open>sint\<close>)
  and as unsigned where it is not (\<open><\<close>, \<open>unat\<close>). The conversions between them keep
  the bits. \<open>int elsize\<close> is kept as an integer and converted with \<open>word_of_int\<close>, which is
  what the C conversion to a 64-bit type does.
\<close>

type_synonym npy_intp = "64 word"
type_synonym npy_uintp = "64 word"

definition NPY_MAX_INTP :: npy_intp where
  "NPY_MAX_INTP = 0x7FFFFFFFFFFFFFFF"

text \<open>
  Modelled from the spec: the flag constants are declared in a header outside this file.
  The flags are a bitset, each flag a bit of its own, so a flags word is modelled as the
  set of the flags that are set in it: \<open>x |= F\<close> is
  \<open>insert F x\<close>, \<open>x &= ~F\<close> is \<open>x - {F}\<close>, and \<open>x & F\<close> tests \<open>F \<in> x\<close>.
  \<open>NPY_F_CONTIGUOUS\<close> is another name of \<open>FORTRAN\<close>.
\<close>

datatype flag = CONTIGUOUS | FORTRAN | OWNDATA | ALIGNED | WRITEABLE | UPDATEIFCOPY

text \<open>
  The fields of \<open>PyArrayObject\<close> that this file's layout code reads, under the names
  of their accessor macros: \<open>data\<close>, \<open>dimensions\<close>, \<open>strides\<close>, \<open>descr->elsize\<close> and
  \<open>flags\<close>. \<open>nd\<close> is the length of \<open>dimensions\<close> and of \<open>strides\<close>.
\<close>

record PyArrayObject =
  PyArray_DATA :: npy_uintp
  PyArray_DIMS :: "npy_intp list"
  PyArray_STRIDES :: "npy_intp list"
  PyArray_ITEMSIZE :: int
  PyArray_FLAGS :: "flag set"

definition PyArray_NDIM :: "PyArrayObject \<Rightarrow> nat" where
  "PyArray_NDIM arr = length (PyArray_DIMS arr)"

subsection \<open>Stride fill: \<open>_array_fill_strides\<close>\<close>

text \<open>The expression \<open>dims[i] ? dims[i] : 1\<close>: a zero extent enters the running product as 1.\<close>

definition nz :: "npy_intp \<Rightarrow> 64 word" where
  "nz d = (if d \<noteq> 0 then d else 1)"

text \<open>
  The Fortran loop \<open>for (i = 0; i < nd; i++)\<close> and the C loop
  \<open>for (i = nd - 1; i >= 0; i--)\<close>; the first argument of \<open>fill_c_loop\<close> is the C
  variable \<open>i\<close> plus one. Both return the strides and the final \<open>itemsize\<close>.
\<close>

function fill_f_loop ::
  "nat \<Rightarrow> nat \<Rightarrow> npy_intp list \<Rightarrow> npy_intp list \<Rightarrow> 64 word \<Rightarrow> npy_intp list \<times> 64 word" where
  "fill_f_loop i nd strides dims itemsize =
     (if i < nd then
        fill_f_loop (i + 1) nd (strides[i := itemsize]) dims (itemsize * nz (dims ! i))
      else (strides, itemsize))"
  by pat_completeness auto
termination
  by (relation "measure (\<lambda>(i, nd, strides, dims, itemsize). nd - i)") auto

declare fill_f_loop.simps [simp del]

fun fill_c_loop ::
  "nat \<Rightarrow> npy_intp list \<Rightarrow> npy_intp list \<Rightarrow> 64 word \<Rightarrow> npy_intp list \<times> 64 word" where
  "fill_c_loop 0 strides dims itemsize = (strides, itemsize)"
| "fill_c_loop (Suc i) strides dims itemsize =
     fill_c_loop i (strides[i := itemsize]) dims (itemsize * nz (dims ! i))"

text \<open>
  \<open>_array_fill_strides(strides, dims, nd, itemsize, inflag, objflags)\<close> returns the
  strides written, the updated \<open>*objflags\<close> and the returned size.
\<close>

definition array_fill_strides ::
  "npy_intp list \<Rightarrow> npy_intp list \<Rightarrow> nat \<Rightarrow> 64 word \<Rightarrow> flag set \<Rightarrow> flag set \<Rightarrow>
   npy_intp list \<times> flag set \<times> 64 word" where
  "array_fill_strides strides dims nd itemsize inflag objflags =
     (if FORTRAN \<in> inflag \<and> CONTIGUOUS \<notin> inflag then
        (let (strides', itemsize') = fill_f_loop 0 nd strides dims itemsize;
             objflags1 = insert FORTRAN objflags;
             objflags2 = (if nd > 1 then objflags1 - {CONTIGUOUS}
                          else insert CONTIGUOUS objflags1)
         in (strides', objflags2, itemsize'))
      else
        (let (strides', itemsize') = fill_c_loop nd strides dims itemsize;
             objflags1 = insert CONTIGUOUS objflags;
             objflags2 = (if nd > 1 then objflags1 - {FORTRAN}
                          else insert FORTRAN objflags1)
         in (strides', objflags2, itemsize')))"

subsection \<open>The canonical constructor: \<open>PyArray_NewFromDescr\<close>\<close>

text \<open>
  A descriptor, as far as the constructor reads it: its element size, whether its type
  number is that of a byte string, of a Unicode string or any other, and its reference
  count. Descriptors with a \<open>subarray\<close> are expanded by a recursive call before anything
  else; the model is of the call on a descriptor without one.
\<close>

datatype typenum = NPY_STRING | NPY_UNICODE | NPY_OTHER

record PyArray_Descr =
  elsize :: int
  type_num :: typenum
  ob_refcnt :: int

definition Py_DECREF :: "PyArray_Descr \<Rightarrow> PyArray_Descr" where
  "Py_DECREF descr = descr\<lparr>ob_refcnt := ob_refcnt descr - 1\<rparr>"

text \<open>
  Modelled from the spec: \<open>PyDataType_ISSTRING\<close> is a macro of a header outside this
  file; zero-size element types are only valid for the text types, byte strings and
  Unicode strings.
\<close>

definition PyDataType_ISSTRING :: "PyArray_Descr \<Rightarrow> bool" where
  "PyDataType_ISSTRING descr = (type_num descr = NPY_STRING \<or> type_num descr = NPY_UNICODE)"

text \<open>
  Modelled from the spec: \<open>MAX_DIMS\<close> and \<open>DEFAULT\<close> are constants of a header outside
  this file: the fixed maximum of the number of dimensions, and the flags of a freshly
  allocated array, which is C-contiguous, aligned and writeable. No property below
  depends on their values.
\<close>

definition MAX_DIMS :: int where
  "MAX_DIMS = 32"

definition DEFAULT :: "flag set" where
  "DEFAULT = {CONTIGUOUS, ALIGNED, WRITEABLE}"

text \<open>
  The Python exceptions set in this file, with their message; \<open>RaisedByCallee\<close> is
  whatever exception a function outside this file has set when it reports a failure.
\<close>

datatype py_error =
    ValueError string | OverflowError string | TypeError string | ZeroDivisionError
  | MemoryError | RaisedByCallee

text \<open>Division of two \<open>npy_intp\<close>: signed, truncating towards zero.\<close>

definition intp_div :: "npy_intp \<Rightarrow> npy_intp \<Rightarrow> npy_intp" where
  "intp_div a b = word_of_int (sint a sdiv sint b)"

text \<open>
  The loop \<open>for (i = 0; i < nd; i++)\<close> over the extents, with the running \<open>largest\<close>
  and \<open>size\<close> (here \<open>sz\<close>); \<open>dimn\<close> is the C variable \<open>dim\<close>. \<open>Inl\<close> is the error
  set before \<open>return NULL\<close>.
\<close>

fun check_dims :: "npy_intp list \<Rightarrow> npy_intp \<Rightarrow> npy_intp \<Rightarrow> py_error + npy_intp \<times> npy_intp" where
  "check_dims [] largest sz = Inr (sz, largest)"
| "check_dims (dimn # dims) largest sz =
     (if dimn = 0 then check_dims dims largest sz
      else if dimn <s 0 then Inl (ValueError ''negative dimensions are not allowed'')
      else if largest <s dimn then Inl (ValueError ''array is too big.'')
      else check_dims dims (intp_div largest dimn) (sz * dimn))"

text \<open>
  The allocators are outside this file. Their outcomes are parameters: whether
  \<open>tp_alloc\<close> and \<open>PyDimMem_NEW\<close> succeed, and the address \<open>PyDataMem_NEW\<close> returns for
  a size (\<open>None\<close> for \<open>NULL\<close>).
\<close>

record allocators =
  tp_alloc_ok :: bool
  PyDimMem_ok :: bool
  PyDataMem_NEW :: "64 word \<Rightarrow> npy_uintp option"

text \<open>
  The outcome of a call: the array returned (\<open>None\<close> for \<open>NULL\<close>), the exception set,
  and the caller's descriptor object afterwards (the call steals one reference to it).
\<close>

record new_result =
  result :: "PyArrayObject option"
  error :: "py_error option"
  descr_after :: PyArray_Descr

text \<open>
  \<open>PyArray_NewFromDescr(&PyArray_Type, descr, nd, dims, strides, data, flags, NULL)\<close>:
  the call for the base array type, which has no \<open>__array_finalize__\<close> hook to run.
  \<open>strides\<close> and \<open>data\<close> are \<open>None\<close> for \<open>NULL\<close>. When the element size is 0 the
  descriptor is replaced by a copy of its own (the macro \<open>PyArray_DESCR_REPLACE\<close>, of a
  header outside this file, is modelled from the spec: a shared descriptor is never
  changed in place, the caller's reference is released and the new descriptor has one
  reference); \<open>own\<close> is the descriptor the array keeps, \<open>caller\<close> the
  caller's object once the reference has gone to the array, and \<open>released\<close> the
  caller's object when the call fails. The \<open>fail\<close> label releases the array, and
  with it the descriptor.
\<close>

definition PyArray_NewFromDescr ::
  "allocators \<Rightarrow> PyArray_Descr \<Rightarrow> int \<Rightarrow> npy_intp list \<Rightarrow> npy_intp list option \<Rightarrow>
   npy_uintp option \<Rightarrow> flag set \<Rightarrow> new_result" where
  "PyArray_NewFromDescr al descr nd dims strides data flags =
     (if nd < 0 then
        \<lparr>result = None, error = Some (ValueError ''number of dimensions must be >=0''),
         descr_after = Py_DECREF descr\<rparr>
      else if nd > MAX_DIMS then
        \<lparr>result = None, error = Some (ValueError ''maximum number of dimensions is 32''),
         descr_after = Py_DECREF descr\<rparr>
      else if elsize descr = 0 \<and> \<not> PyDataType_ISSTRING descr then
        \<lparr>result = None, error = Some (ValueError ''Empty data-type''),
         descr_after = Py_DECREF descr\<rparr>
      else
        (let replaced = (elsize descr = 0);
             own = (if replaced
                    then descr\<lparr>elsize := (if type_num descr = NPY_STRING then 1 else 4),
                               ob_refcnt := 1\<rparr>
                    else descr);
             caller = (if replaced then Py_DECREF descr else descr);
             released = (if replaced then caller else Py_DECREF descr);
             sd = (word_of_int (elsize own) :: 64 word);
             nd' = nat nd
         in case check_dims (take nd' dims) (NPY_MAX_INTP div sd) 1 of
              Inl e \<Rightarrow> \<lparr>result = None, error = Some e, descr_after = released\<rparr>
            | Inr (sz, largest) \<Rightarrow>
                if \<not> tp_alloc_ok al then
                  \<lparr>result = None, error = Some MemoryError, descr_after = released\<rparr>
                else
                  (let self_flags =
                         (if data = None then
                            (if flags \<noteq> {} then
                               (if nd > 1 then insert FORTRAN DEFAULT - {CONTIGUOUS}
                                else insert FORTRAN DEFAULT)
                             else DEFAULT)
                          else flags - {UPDATEIFCOPY});
                       flags' = (if data = None \<and> flags \<noteq> {} then {FORTRAN} else flags)
                   in if nd > 0 \<and> \<not> PyDimMem_ok al then
                        \<lparr>result = None, error = Some MemoryError, descr_after = released\<rparr>
                      else
                        (let (self_strides, self_flags1, sd1) =
                               (if nd > 0 then
                                  (case strides of
                                     None \<Rightarrow>
                                       array_fill_strides (replicate nd' 0) (take nd' dims) nd' sd
                                         flags' self_flags
                                   | Some given \<Rightarrow> (take nd' given, self_flags, sd * sz))
                                else ([], self_flags, sd))
                         in case data of
                              None \<Rightarrow>
                                (let sd2 = (if sd1 = 0 then word_of_int (elsize own) else sd1)
                                 in case PyDataMem_NEW al sd2 of
                                      None \<Rightarrow>
                                        \<lparr>result = None, error = Some MemoryError,
                                         descr_after = released\<rparr>
                                    | Some p \<Rightarrow>
                                        \<lparr>result = Some
                                           \<lparr>PyArray_DATA = p, PyArray_DIMS = take nd' dims,
                                            PyArray_STRIDES = self_strides,
                                            PyArray_ITEMSIZE = elsize own,
                                            PyArray_FLAGS = insert OWNDATA self_flags1\<rparr>,
                                         error = None, descr_after = caller\<rparr>)
                            | Some p \<Rightarrow>
                                \<lparr>result = Some
                                   \<lparr>PyArray_DATA = p, PyArray_DIMS = take nd' dims,
                                    PyArray_STRIDES = self_strides,
                                    PyArray_ITEMSIZE = elsize own,
                                    PyArray_FLAGS = self_flags1 - {OWNDATA}\<rparr>,
                                 error = None, descr_after = caller\<rparr>))))"

text \<open>
  The per-axis test in words: an extent is accepted under a bound when it is 0, or
  positive and at most the bound; the bound after a run of accepted extents is the first
  bound divided by each non-zero extent in turn; the first bound is \<open>NPY_MAX_INTP\<close>
  divided by the element size the array will have.
\<close>

definition accepted :: "npy_intp \<Rightarrow> npy_intp \<Rightarrow> bool" where
  "accepted bound d = (d = 0 \<or> (0 <s d \<and> d \<le>s bound))"

fun bound_after :: "npy_intp \<Rightarrow> npy_intp list \<Rightarrow> npy_intp" where
  "bound_after b [] = b"
| "bound_after b (d # ds) = bound_after (if d = 0 then b else intp_div b d) ds"

definition first_bound :: "PyArray_Descr \<Rightarrow> npy_intp" where
  "first_bound descr =
     NPY_MAX_INTP div
       word_of_int (if elsize descr = 0 then (if type_num descr = NPY_STRING then 1 else 4)
                    else elsize descr)"


subsection \<open>Memory extents and overlap: \<open>_get_memory_extents\<close>, \<open>_arrays_overlap\<close>\<close>

text \<open>
  The loop over \<open>idim\<close>, on the pairs \<open>(strides[idim], dimensions[idim])\<close>. \<open>None\<close> is
  the early return taken at a zero extent; \<open>dimn\<close> is the C variable \<open>dim\<close>.
\<close>

fun extents_loop ::
  "(npy_intp \<times> npy_intp) list \<Rightarrow> npy_uintp \<Rightarrow> npy_uintp \<Rightarrow> (npy_uintp \<times> npy_uintp) option" where
  "extents_loop [] start end = Some (start, end)"
| "extents_loop ((stride, dimn) # rest) start end =
     (if dimn = 0 then None
      else if 0 <s stride then extents_loop rest start (end + stride * (dimn - 1))
      else if stride <s 0 then extents_loop rest (start + stride * (dimn - 1)) end
      else extents_loop rest start end)"

definition get_memory_extents :: "PyArrayObject \<Rightarrow> npy_uintp \<times> npy_uintp" where
  "get_memory_extents arr =
     (case extents_loop (zip (PyArray_STRIDES arr) (PyArray_DIMS arr)) (PyArray_DATA arr) (PyArray_DATA arr) of
        None \<Rightarrow> (PyArray_DATA arr, PyArray_DATA arr)
      | Some (start, end) \<Rightarrow> (start, end + word_of_int (PyArray_ITEMSIZE arr)))"

definition arrays_overlap :: "PyArrayObject \<Rightarrow> PyArrayObject \<Rightarrow> bool" where
  "arrays_overlap arr1 arr2 =
     (let (start1, end1) = get_memory_extents arr1;
          (start2, end2) = get_memory_extents arr2
      in start1 < end2 \<and> start2 < end1)"

subsection \<open>Dimension discovery: \<open>discover_dimensions\<close>\<close>









subsection \<open>Moving with overlap: \<open>PyArray_MoveInto\<close>\<close>

text \<open>
  Modelled from the spec: \<open>PyArray_ISFORTRAN\<close> is a macro of a header outside this file;
  the temporary is to match the destination's C or Fortran order, and a
  layout of at most one dimension is both, so the destination counts as Fortran when its
  \<open>FORTRAN\<close> flag is set and it has more than one dimension.
\<close>

definition PyArray_ISFORTRAN :: "PyArrayObject \<Rightarrow> bool" where
  "PyArray_ISFORTRAN arr = (FORTRAN \<in> PyArray_FLAGS arr \<and> PyArray_NDIM arr > 1)"

text \<open>
  \<open>PyArray_MoveInto\<close> calls \<open>PyArray_CopyInto\<close>, the constructor and \<open>Py_DECREF\<close> on
  the temporary. \<open>PyArray_CopyInto\<close> runs on the iteration engine and the transfer
  functions, and the constructor on the allocators, all outside this file, so the three
  are parameters here, acting on a state \<open>'s\<close>:
  \<^item> \<open>CopyInto dst src s\<close> returns the C return value (0 or -1) and the new state;
  \<^item> \<open>NewArray elsize dims flags s\<close> is
    \<open>PyArray_NewFromDescr(&PyArray_Type, descr, nd, dims, NULL, NULL, flags, NULL)\<close>,
    \<open>None\<close> for \<open>NULL\<close>;
  \<^item> \<open>DecRef tmp s\<close> is \<open>Py_DECREF(tmp)\<close>.
\<close>

definition PyArray_MoveInto ::
  "(PyArrayObject \<Rightarrow> PyArrayObject \<Rightarrow> 's \<Rightarrow> int \<times> 's) \<Rightarrow>
   (int \<Rightarrow> npy_intp list \<Rightarrow> flag set \<Rightarrow> 's \<Rightarrow> PyArrayObject option \<times> 's) \<Rightarrow>
   (PyArrayObject \<Rightarrow> 's \<Rightarrow> 's) \<Rightarrow>
   PyArrayObject \<Rightarrow> PyArrayObject \<Rightarrow> 's \<Rightarrow> int \<times> 's" where
  "PyArray_MoveInto CopyInto NewArray DecRef dst src s =
     (if (PyArray_NDIM dst = 1 \<and> PyArray_NDIM src = 1 \<and>
          0 <s PyArray_STRIDES dst ! 0 \<and> 0 <s PyArray_STRIDES src ! 0) \<or>
         \<not> arrays_overlap dst src
      then CopyInto dst src s
      else
        (case NewArray (PyArray_ITEMSIZE dst) (PyArray_DIMS dst)
                (if PyArray_ISFORTRAN dst then {FORTRAN} else {}) s of
           (None, s1) \<Rightarrow> (-1, s1)
         | (Some tmp, s1) \<Rightarrow>
             (let (ret, s2) = CopyInto tmp src s1;
                  (ret', s3) = (if ret = 0 then CopyInto dst tmp s2 else (ret, s2))
              in (ret', DecRef tmp s3))))"

subsection \<open>What an array holds, and the contract of \<open>PyArray_CopyInto\<close>\<close>











text \<open>
  A recording instance of the three parameters: the state is the list of calls made, in
  order. The recording constructor is \<open>PyArray_NewFromDescr\<close> with allocators that succeed
  and place the data at address 4096.
\<close>

datatype call =
    Copy_Into PyArrayObject PyArrayObject
  | New_From_Descr int "npy_intp list" "flag set"
  | Dec_Ref PyArrayObject

definition log_copy :: "PyArrayObject \<Rightarrow> PyArrayObject \<Rightarrow> call list \<Rightarrow> int \<times> call list" where
  "log_copy dst src s = (0, s @ [Copy_Into dst src])"

definition new_array_at :: "npy_uintp \<Rightarrow> int \<Rightarrow> npy_intp list \<Rightarrow> flag set \<Rightarrow> PyArrayObject option" where
  "new_array_at p els dims fl =
     result (PyArray_NewFromDescr
               \<lparr>tp_alloc_ok = True, PyDimMem_ok = True, PyDataMem_NEW = (\<lambda>n. Some p)\<rparr>
               \<lparr>elsize = els, type_num = NPY_OTHER, ob_refcnt = 1\<rparr>
               (int (length dims)) dims None None fl)"

definition log_new ::
  "int \<Rightarrow> npy_intp list \<Rightarrow> flag set \<Rightarrow> call list \<Rightarrow> PyArrayObject option \<times> call list" where
  "log_new els dims fl s = (new_array_at 4096 els dims fl, s @ [New_From_Descr els dims fl])"

definition log_decref :: "PyArrayObject \<Rightarrow> call list \<Rightarrow> call list" where
  "log_decref tmp s = s @ [Dec_Ref tmp]"






subsection \<open>Range generator: \<open>_safe_ceil_to_intp\<close>, \<open>PyArray_Arange\<close>, \<open>PyArray_ArangeObj\<close>\<close>

text \<open>
  A C \<open>double\<close> is a finite value, an infinity or a NaN; signed zeros are not told
  apart. \<open>npy_ceil\<close> and the comparisons are exact on doubles and are modelled as such (a
  comparison with a NaN is false). Subtraction, division and addition round; they are
  the three operations of \<open>fpu\<close>, parameters of the functions below.
\<close>

datatype double = Finite real | PosInf | NegInf | NaN

fun npy_ceil :: "double \<Rightarrow> double" where
  "npy_ceil (Finite r) = Finite (of_int \<lceil>r\<rceil>)"
| "npy_ceil x = x"

fun double_less :: "double \<Rightarrow> double \<Rightarrow> bool" where
  "double_less (Finite a) (Finite b) = (a < b)"
| "double_less NegInf (Finite b) = True"
| "double_less NegInf PosInf = True"
| "double_less (Finite a) PosInf = True"
| "double_less x y = False"

record fpu =
  fsub :: "double \<Rightarrow> double \<Rightarrow> double"
  fdiv :: "double \<Rightarrow> double \<Rightarrow> double"
  fadd :: "double \<Rightarrow> double \<Rightarrow> double"

text \<open>
  \<open>_safe_ceil_to_intp\<close> returns 0 and the integer (\<open>Ceil_OK\<close>) or -1
  (\<open>Ceil_Overflow\<close>). The two bounds are compared as doubles: \<open>NPY_MIN_INTP\<close> is
  \<open>-2\<^sup>6\<^sup>3\<close>, and \<open>NPY_MAX_INTP\<close>, \<open>2\<^sup>6\<^sup>3 - 1\<close>, converts to the double \<open>2\<^sup>6\<^sup>3\<close>. A value
  that passes both comparisons and is a NaN or \<open>2\<^sup>6\<^sup>3\<close> is then cast to \<open>npy_intp\<close>, which
  C leaves undefined (\<open>Ceil_Undefined\<close>).
\<close>

datatype ceil_result = Ceil_OK int | Ceil_Overflow | Ceil_Undefined

definition NPY_MIN_INTP_as_double :: double where
  "NPY_MIN_INTP_as_double = Finite (- (2 ^ 63))"

definition NPY_MAX_INTP_as_double :: double where
  "NPY_MAX_INTP_as_double = Finite (2 ^ 63)"

definition safe_ceil_to_intp :: "double \<Rightarrow> ceil_result" where
  "safe_ceil_to_intp value =
     (let ivalue = npy_ceil value
      in if double_less ivalue NPY_MIN_INTP_as_double \<or> double_less NPY_MAX_INTP_as_double ivalue
         then Ceil_Overflow
         else (case ivalue of
                 Finite r \<Rightarrow> if r < 2 ^ 63 then Ceil_OK \<lfloor>r\<rfloor> else Ceil_Undefined
               | _ \<Rightarrow> Ceil_Undefined))"

text \<open>
  The descriptor's functions used by the range generator, on Python objects \<open>'o\<close> and
  array elements \<open>'e\<close>: \<open>setitem\<close> converts an object to the element it stores (\<open>None\<close>
  when it fails), and \<open>fill\<close>, which may be absent, completes a buffer of a given length
  from its first two elements (\<open>None\<close> when it sets an exception).
\<close>

record ('o, 'e) PyArray_ArrFuncs =
  setitem :: "'o \<Rightarrow> 'e option"
  fill :: "('e list \<Rightarrow> int \<Rightarrow> 'e list option) option"

text \<open>
  What a call returns: the array (its elements; \<open>None\<close> for \<open>NULL\<close>) and the exception
  left set, or \<open>Undefined\<close> when the call runs into the undefined cast.
\<close>

datatype 'e outcome = Returns "'e list option" "py_error option" | Undefined

text \<open>
  \<open>PyArray_Arange(start, stop, step, type_num)\<close>. \<open>PyArray_New\<close> is the allocation of a
  1-dimensional array of the requested type and of a given length (its fresh buffer, or
  the exception it sets). \<open>len\<close> is the C variable \<open>length\<close> and \<open>rng\<close> is \<open>range\<close>. When
  \<open>_safe_ceil_to_intp\<close> fails, the exception is set and the function goes on with
  \<open>length\<close> never assigned: \<open>uninit\<close> is the value it then happens to hold. After \<open>fill\<close>,
  \<open>PyErr_Occurred()\<close> also sees an exception set before.
\<close>

definition PyArray_Arange ::
  "fpu \<Rightarrow> (double \<Rightarrow> 'o) \<Rightarrow> (int \<Rightarrow> py_error + 'e list) \<Rightarrow> ('o, 'e) PyArray_ArrFuncs \<Rightarrow> int \<Rightarrow>
   double \<Rightarrow> double \<Rightarrow> double \<Rightarrow> 'e outcome" where
  "PyArray_Arange fp PyFloat_FromDouble PyArray_New funcs uninit start stop step =
     (case safe_ceil_to_intp (fdiv fp (fsub fp stop start) step) of
        Ceil_Undefined \<Rightarrow> Undefined
      | r \<Rightarrow>
        (let (len, err) =
               (case r of
                  Ceil_OK n \<Rightarrow> (n, None)
                | _ \<Rightarrow> (uninit, Some (OverflowError ''arange: overflow while computing length'')))
         in if len \<le> 0 then
              (case PyArray_New 0 of
                 Inl e \<Rightarrow> Returns None (Some e)
               | Inr rng \<Rightarrow> Returns (Some rng) err)
            else
              (case PyArray_New len of
                 Inl e \<Rightarrow> Returns None (Some e)
               | Inr rng \<Rightarrow>
                   (case setitem funcs (PyFloat_FromDouble start) of
                      None \<Rightarrow> Returns None (Some RaisedByCallee)
                    | Some e0 \<Rightarrow>
                        (let rng1 = rng[0 := e0]
                         in if len = 1 then Returns (Some rng1) err
                            else
                              (case setitem funcs (PyFloat_FromDouble (fadd fp start step)) of
                                 None \<Rightarrow> Returns None (Some RaisedByCallee)
                               | Some e1 \<Rightarrow>
                                   (let rng2 = rng1[1 := e1]
                                    in if len = 2 then Returns (Some rng2) err
                                       else
                                         (case fill funcs of
                                            None \<Rightarrow>
                                              Returns None
                                                (Some (ValueError ''no fill-function for data-type.''))
                                          | Some f \<Rightarrow>
                                              (case f rng2 len of
                                                 None \<Rightarrow> Returns None (Some RaisedByCallee)
                                               | Some rng3 \<Rightarrow>
                                                   if err \<noteq> None then Returns None err
                                                   else Returns (Some rng3) None)))))))))"

text \<open>
  The functions of the Python C API that \<open>_calc_length\<close> and \<open>PyArray_ArangeObj\<close> call
  on their operands, as parameters: each returns its result or the exception it sets.
\<close>

record 'o pyapi =
  PyInt_FromLong :: "int \<Rightarrow> 'o"
  PyTuple_Check :: "'o \<Rightarrow> bool"
  PyComplex_Check :: "'o \<Rightarrow> bool"
  PyNumber_Subtract :: "'o \<Rightarrow> 'o \<Rightarrow> py_error + 'o"
  PyNumber_TrueDivide :: "'o \<Rightarrow> 'o \<Rightarrow> py_error + 'o"
  PyNumber_Add :: "'o \<Rightarrow> 'o \<Rightarrow> py_error + 'o"
  PyFloat_AsDouble :: "'o \<Rightarrow> py_error + double"
  PyComplex_RealAsDouble :: "'o \<Rightarrow> py_error + double"
  PyComplex_ImagAsDouble :: "'o \<Rightarrow> py_error + double"

text \<open>
  \<open>_calc_length\<close> returns the length, stores \<open>start + step\<close> in \<open>*next\<close> when the length
  is positive, and may leave an exception set. \<open>calc_next\<close> is its last part, from
  \<open>if (len > 0)\<close> on.
\<close>

datatype 'o calc = Calc int "'o option" "py_error option" | Calc_Undefined

definition calc_next :: "'o pyapi \<Rightarrow> 'o \<Rightarrow> 'o \<Rightarrow> int \<Rightarrow> 'o calc" where
  "calc_next api start step len =
     (if len > 0 then
        (case PyNumber_Add api start step of
           Inl e \<Rightarrow> Calc len None (Some e)
         | Inr n \<Rightarrow> Calc len (Some n) None)
      else Calc len None None)"

definition calc_length :: "'o pyapi \<Rightarrow> 'o \<Rightarrow> 'o \<Rightarrow> 'o \<Rightarrow> bool \<Rightarrow> 'o calc" where
  "calc_length api start stop step cmplx =
     (case PyNumber_Subtract api stop start of
        Inl e \<Rightarrow>
          Calc (- 1) None
            (Some (if PyTuple_Check api stop
                   then TypeError ''arange: scalar arguments expected instead of a tuple.''
                   else e))
      | Inr nxt \<Rightarrow>
          (case PyNumber_TrueDivide api nxt step of
             Inl e \<Rightarrow> Calc (- 1) None (Some e)
           | Inr val \<Rightarrow>
               if cmplx \<and> PyComplex_Check api val then
                 (case PyComplex_RealAsDouble api val of
                    Inl e \<Rightarrow> Calc (- 1) None (Some e)
                  | Inr value \<Rightarrow>
                      (case safe_ceil_to_intp value of
                         Ceil_Overflow \<Rightarrow>
                           Calc (- 1) None
                             (Some (OverflowError ''arange: overflow while computing length''))
                       | Ceil_Undefined \<Rightarrow> Calc_Undefined
                       | Ceil_OK len \<Rightarrow>
                           (case PyComplex_ImagAsDouble api val of
                              Inl e \<Rightarrow> Calc (- 1) None (Some e)
                            | Inr value' \<Rightarrow>
                                (case safe_ceil_to_intp value' of
                                   Ceil_Overflow \<Rightarrow>
                                     Calc (- 1) None
                                       (Some (OverflowError
                                                ''arange: overflow while computing length''))
                                 | Ceil_Undefined \<Rightarrow> Calc_Undefined
                                 | Ceil_OK tmp \<Rightarrow> calc_next api start step (min len tmp)))))
               else
                 (case PyFloat_AsDouble api val of
                    Inl e \<Rightarrow> Calc (- 1) None (Some e)
                  | Inr value \<Rightarrow>
                      (case safe_ceil_to_intp value of
                         Ceil_Overflow \<Rightarrow>
                           Calc (- 1) None
                             (Some (OverflowError ''arange: overflow while computing length''))
                       | Ceil_Undefined \<Rightarrow> Calc_Undefined
                       | Ceil_OK len \<Rightarrow> calc_next api start step len))))"

text \<open>
  \<open>PyArray_ArangeObj(start, stop, step, dtype)\<close> for a given \<open>dtype\<close>: \<open>swap\<close> tells
  whether its byte order is not the native one, \<open>byteswap\<close> is the byte swap of one
  element, \<open>cmplx\<close> whether its type is complex, \<open>funcs\<close> are the functions of its
  native-order descriptor, and \<open>PyArray_SimpleNewFromDescr\<close> allocates the 1-dimensional
  array. \<open>stop\<close> and \<open>step\<close> are \<open>None\<close> when they are \<open>NULL\<close> or \<open>Py_None\<close>.
\<close>

fun is_OverflowError :: "py_error \<Rightarrow> bool" where
  "is_OverflowError (OverflowError m) = True"
| "is_OverflowError e = False"

definition PyArray_ArangeObj ::
  "'o pyapi \<Rightarrow> (int \<Rightarrow> py_error + 'e list) \<Rightarrow> ('o, 'e) PyArray_ArrFuncs \<Rightarrow> bool \<Rightarrow> ('e \<Rightarrow> 'e) \<Rightarrow> bool \<Rightarrow>
   'o \<Rightarrow> 'o option \<Rightarrow> 'o option \<Rightarrow> 'e outcome" where
  "PyArray_ArangeObj api PyArray_SimpleNewFromDescr funcs swap byteswap cmplx start0 stop0 step0 =
     (let step = (case step0 of None \<Rightarrow> PyInt_FromLong api 1 | Some x \<Rightarrow> x);
          (start, stop) =
            (case stop0 of None \<Rightarrow> (PyInt_FromLong api 0, start0) | Some x \<Rightarrow> (start0, x))
      in case calc_length api start stop step cmplx of
           Calc_Undefined \<Rightarrow> Undefined
         | Calc len nxt (Some err) \<Rightarrow>
             Returns None
               (Some (if is_OverflowError err then ValueError ''Maximum allowed size exceeded''
                      else err))
         | Calc len nxt None \<Rightarrow>
             if len \<le> 0 then
               (case PyArray_SimpleNewFromDescr 0 of
                  Inl e \<Rightarrow> Returns None (Some e)
                | Inr rng \<Rightarrow> Returns (Some rng) None)
             else
               (case PyArray_SimpleNewFromDescr len of
                  Inl e \<Rightarrow> Returns None (Some e)
                | Inr rng \<Rightarrow>
                    (let finish = (\<lambda>r. Returns (Some (if swap then map byteswap r else r)) None)
                     in case setitem funcs start of
                          None \<Rightarrow> Returns None (Some RaisedByCallee)
                        | Some e0 \<Rightarrow>
                            (let rng1 = rng[0 := e0]
                             in if len = 1 then finish rng1
                                else
                                  (case (case nxt of None \<Rightarrow> None | Some n \<Rightarrow> setitem funcs n) of
                                     None \<Rightarrow> Returns None (Some RaisedByCallee)
                                   | Some e1 \<Rightarrow>
                                       (let rng2 = rng1[1 := e1]
                                        in if len = 2 then finish rng2
                                           else
                                             (case fill funcs of
                                                None \<Rightarrow>
                                                  Returns None
                                                    (Some (ValueError
                                                             ''no fill-function for data-type.''))
                                              | Some f \<Rightarrow>
                                                  (case f rng2 len of
                                                     None \<Rightarrow> Returns None (Some RaisedByCallee)
                                                   | Some rng3 \<Rightarrow> finish rng3))))))))"


text \<open>
  For the examples: arithmetic without rounding on finite operands, which is what IEEE
  arithmetic computes whenever the exact result is a double, as it is for the small
  integers and the powers of two used below (the examples have no other operands);
  Python floats as objects; the \<open>setitem\<close> of an integer type, which truncates; and an
  allocation that succeeds.
\<close>

fun exact_sub :: "double \<Rightarrow> double \<Rightarrow> double" where
  "exact_sub (Finite a) (Finite b) = Finite (a - b)"
| "exact_sub x y = NaN"

fun exact_add :: "double \<Rightarrow> double \<Rightarrow> double" where
  "exact_add (Finite a) (Finite b) = Finite (a + b)"
| "exact_add x y = NaN"

fun exact_div :: "double \<Rightarrow> double \<Rightarrow> double" where
  "exact_div (Finite a) (Finite b) =
     (if b \<noteq> 0 then Finite (a / b)
      else if a > 0 then PosInf else if a < 0 then NegInf else NaN)"
| "exact_div x y = NaN"

definition exact_fpu :: fpu where
  "exact_fpu = \<lparr>fsub = exact_sub, fdiv = exact_div, fadd = exact_add\<rparr>"

definition float_api :: "double pyapi" where
  "float_api =
     \<lparr>PyInt_FromLong = (\<lambda>n. Finite (of_int n)),
      PyTuple_Check = (\<lambda>x. False),
      PyComplex_Check = (\<lambda>x. False),
      PyNumber_Subtract = (\<lambda>a b. Inr (exact_sub a b)),
      PyNumber_TrueDivide = (\<lambda>a b. if b = Finite 0 then Inl ZeroDivisionError
                                  else Inr (exact_div a b)),
      PyNumber_Add = (\<lambda>a b. Inr (exact_add a b)),
      PyFloat_AsDouble = Inr,
      PyComplex_RealAsDouble = Inr,
      PyComplex_ImagAsDouble = Inr\<rparr>"

fun int_setitem :: "double \<Rightarrow> int option" where
  "int_setitem (Finite r) = Some (if r \<ge> 0 then \<lfloor>r\<rfloor> else \<lceil>r\<rceil>)"
| "int_setitem x = None"

text \<open>
  Modelled from the spec: the \<open>fill\<close> functions of the descriptors are outside this file.
  A fill function is seeded from the first two elements and extrapolates the arithmetic
  progression in the element type: element \<open>i\<close> is the first element plus \<open>i\<close> times the
  difference of the first two. \<open>fill_contract\<close> (below) says so of any fill function.
\<close>

definition arith_fill :: "'e::comm_ring_1 list \<Rightarrow> int \<Rightarrow> 'e list option" where
  "arith_fill buffer len =
     Some (map (\<lambda>i. if i < 2 then buffer ! i
                     else buffer ! 0 + of_nat i * (buffer ! 1 - buffer ! 0))
               [0..<nat len])"

definition new_buffer :: "'e \<Rightarrow> int \<Rightarrow> py_error + 'e list" where
  "new_buffer junk n =
     (if n < 0 then Inl (ValueError ''negative dimensions are not allowed'')
      else Inr (replicate (nat n) junk))"

definition fill_contract :: "('e::comm_ring_1 list \<Rightarrow> int \<Rightarrow> 'e list option) \<Rightarrow> bool" where
  "fill_contract f =
     (\<forall>buffer n. 2 < n \<and> length buffer = nat n \<longrightarrow>
        (\<exists>filled. f buffer n = Some filled \<and> length filled = nat n \<and>
           (\<forall>i<nat n. filled ! i = buffer ! 0 + of_nat i * (buffer ! 1 - buffer ! 0))))"

section \<open>Properties\<close>

subsection \<open>Separator normalisation\<close>

text \<open>
  C8. The claim is that the cleaned separator begins and ends with a space whenever the
  original does not begin or end with whitespace, and that whitespace runs are collapsed
  to one space. The final test of \<open>swab_separator\<close> appends a space when the last
  character written is a space, not when it is not: the separator \<open>,\<close> is cleaned to
  space-comma, with no trailing space, and comma-space is cleaned to space-comma-space-space.
\<close>

theorem swab_separator_comma:
  "swab_separator '','' = '' ,'' \<and> last (swab_separator '','') \<noteq> CHR '' '' \<and>
   swab_separator '', '' = '' ,  ''"
  by (simp add: swab_separator_def isspace_def)

subsection \<open>Strided copy with byte swap\<close>

text \<open>
  C9. The claim is that \<open>copy_and_swap\<close> with \<open>swap\<close> set leaves in \<open>dst\<close> the gathered
  items with their bytes reversed, on the fast path and on the strided loop path alike.
  On the loop path the pointer \<open>d1\<close> has been advanced past the last item copied when
  \<open>byte_swap_vector(d1, numitems, itemsize)\<close> runs: the bytes of \<open>dst\<close> stay unswapped
  and the \<open>numitems * itemsize\<close> bytes after them are swapped instead. Below, two 2-byte
  items \<open>01 02\<close> and \<open>03 04\<close> are gathered at stride 4 into address 0; addresses 4 to 7
  hold \<open>0A 0B 0C 0D\<close> and are not part of the destination. The second equation is what
  the gather followed by a swap of the destination gives, and the third what the code
  gives on the fast path (the same items at stride 2).
\<close>

theorem copy_and_swap_strided_swaps_past_dst:
  "peek (copy_and_swap
           (mem_of [(100, 1), (101, 2), (104, 3), (105, 4), (4, 10), (5, 11), (6, 12), (7, 13)])
           0 100 2 2 4 True) 0 8
     = [1, 2, 3, 4, 11, 10, 13, 12] \<and>
   peek (gather_then_swap
           (mem_of [(100, 1), (101, 2), (104, 3), (105, 4), (4, 10), (5, 11), (6, 12), (7, 13)])
           0 100 2 2 4) 0 8
     = [2, 1, 4, 3, 10, 11, 12, 13] \<and>
   peek (copy_and_swap
           (mem_of [(100, 1), (101, 2), (102, 3), (103, 4), (4, 10), (5, 11), (6, 12), (7, 13)])
           0 100 2 2 2 True) 0 8
     = [2, 1, 4, 3, 10, 11, 12, 13]"
  by code_simp

subsection \<open>Contiguous strides\<close>

lemma fill_f_loop_spec:
  "i \<le> nd \<Longrightarrow> length strides = nd \<Longrightarrow> length dims = nd \<Longrightarrow>
   fill_f_loop i nd strides dims item = (strides', item') \<Longrightarrow>
   length strides' = nd \<and>
   item' = item * prod_list (map nz (drop i dims)) \<and>
   (\<forall>k<nd. strides' ! k =
      (if k < i then strides ! k else item * prod_list (map nz (take (k - i) (drop i dims)))))"
proof (induction i nd strides dims item rule: fill_f_loop.induct)
  case (1 i nd strides dims itemsize)
  show ?case
  proof (cases "i < nd")
    case False
    with "1.prems" show ?thesis by (subst (asm) fill_f_loop.simps) auto
  next
    case True
    let ?it = "itemsize * nz (dims ! i)"
    from True "1.prems"(4) have run: "fill_f_loop (i + 1) nd (strides[i := itemsize]) dims ?it = (strides', item')"
      by (subst (asm) fill_f_loop.simps) simp
    have drop_i: "drop i dims = dims ! i # drop (Suc i) dims"
      using True "1.prems" by (simp add: Cons_nth_drop_Suc)
    from "1.IH"[OF True _ _ _ run] True "1.prems"(1-3)
    have ih: "length strides' = nd \<and>
      item' = ?it * prod_list (map nz (drop (i + 1) dims)) \<and>
      (\<forall>k<nd. strides' ! k =
        (if k < i + 1 then strides[i := itemsize] ! k
         else ?it * prod_list (map nz (take (k - (i + 1)) (drop (i + 1) dims)))))"
      by simp
    have "\<forall>k<nd. strides' ! k =
      (if k < i then strides ! k else itemsize * prod_list (map nz (take (k - i) (drop i dims))))"
    proof (intro allI impI)
      fix k assume k: "k < nd"
      consider "k < i" | "k = i" | "k > i" by linarith
      then show "strides' ! k =
        (if k < i then strides ! k else itemsize * prod_list (map nz (take (k - i) (drop i dims))))"
      proof cases
        case 1 with ih k show ?thesis by simp
      next
        case 2 with ih k "1.prems" show ?thesis by simp
      next
        case 3
        then obtain j where j: "k - i = Suc j" by (metis Suc_diff_Suc)
        with 3 have "k - (i + 1) = j" by simp
        with ih k 3 j show ?thesis by (simp add: drop_i mult.assoc)
      qed
    qed
    with ih show ?thesis by (simp add: drop_i mult.assoc)
  qed
qed

lemma fill_c_loop_spec:
  "i \<le> length dims \<Longrightarrow> length strides = length dims \<Longrightarrow>
   fill_c_loop i strides dims item = (strides', item') \<Longrightarrow>
   length strides' = length dims \<and>
   item' = item * prod_list (map nz (drop 0 (take i dims))) \<and>
   (\<forall>k<length dims. strides' ! k =
      (if i \<le> k then strides ! k else item * prod_list (map nz (drop (Suc k) (take i dims)))))"
proof (induction i arbitrary: strides item)
  case 0
  then show ?case by simp
next
  case (Suc i)
  let ?it = "item * nz (dims ! i)"
  from Suc.prems(3) have run: "fill_c_loop i (strides[i := item]) dims ?it = (strides', item')"
    by simp
  have tk: "take (Suc i) dims = take i dims @ [dims ! i]"
    using Suc.prems by (simp add: take_Suc_conv_app_nth)
  from Suc.IH[OF _ _ run] Suc.prems
  have ih: "length strides' = length dims \<and>
    item' = ?it * prod_list (map nz (drop 0 (take i dims))) \<and>
    (\<forall>k<length dims. strides' ! k =
      (if i \<le> k then strides[i := item] ! k
       else ?it * prod_list (map nz (drop (Suc k) (take i dims)))))"
    by simp
  have "\<forall>k<length dims. strides' ! k =
      (if Suc i \<le> k then strides ! k
       else item * prod_list (map nz (drop (Suc k) (take (Suc i) dims))))"
  proof (intro allI impI)
    fix k assume k: "k < length dims"
    consider "k < i" | "k = i" | "k > i" by linarith
    then show "strides' ! k =
      (if Suc i \<le> k then strides ! k
       else item * prod_list (map nz (drop (Suc k) (take (Suc i) dims))))"
    proof cases
      case 1 with ih k Suc.prems show ?thesis by (simp add: tk mult.assoc mult.commute)
    next
      case 2 with ih k Suc.prems show ?thesis by (simp add: tk)
    next
      case 3 with ih k show ?thesis by simp
    qed
  qed
  with ih show ?case by (simp add: tk mult.assoc mult.commute)
qed

lemma prod_nz_pos: "0 < prod_list (map (\<lambda>d. unat (nz d)) ds)"
  by (induction ds) (auto simp: nz_def unat_gt_0)

lemma unat_prod_nz:
  "unat a * prod_list (map (\<lambda>d. unat (nz d)) ds) < 2 ^ 64 \<Longrightarrow>
   unat (a * prod_list (map nz ds)) = unat a * prod_list (map (\<lambda>d. unat (nz d)) ds)"
proof (induction ds arbitrary: a)
  case Nil
  then show ?case by simp
next
  case (Cons d ds)
  have pos: "1 \<le> prod_list (map (\<lambda>d. unat (nz d)) ds)"
    using prod_nz_pos[of ds] by simp
  have le: "unat a * unat (nz d) \<le> unat a * unat (nz d) * prod_list (map (\<lambda>d. unat (nz d)) ds)"
    using mult_le_mono2[OF pos, of "unat a * unat (nz d)"] by (simp only: mult_1_right)
  have "unat a * unat (nz d) * prod_list (map (\<lambda>d. unat (nz d)) ds) < 2 ^ 64"
    using Cons.prems by (simp add: mult.assoc)
  with le have small: "unat a * unat (nz d) < 2 ^ 64"
    by (rule le_less_trans)
  then have step: "unat (a * nz d) = unat a * unat (nz d)"
    by (simp add: unat_mult_lem [THEN iffD1])
  from Cons.prems have "unat (a * nz d) * prod_list (map (\<lambda>d. unat (nz d)) ds) < 2 ^ 64"
    by (simp add: step mult.assoc)
  from Cons.IH[OF this] show ?case
    by (simp add: step mult.assoc)
qed

lemma map_nz_id: "0 \<notin> set ds \<Longrightarrow> map nz ds = ds"
  by (induction ds) (auto simp: nz_def)

lemma array_fill_strides_ret:
  assumes "length dims = nd" "length strides = nd"
    and "array_fill_strides strides dims nd itemsize inflag objflags = (strides', objflags', sd)"
  shows "sd = itemsize * prod_list (map nz dims)"
proof (cases "FORTRAN \<in> inflag \<and> CONTIGUOUS \<notin> inflag")
  case True
  obtain st it where r: "fill_f_loop 0 nd strides dims itemsize = (st, it)" by force
  from fill_f_loop_spec[OF _ assms(2) assms(1) r] have "it = itemsize * prod_list (map nz dims)" by simp
  with assms(3) True r show ?thesis by (simp add: array_fill_strides_def Let_def)
next
  case False
  obtain st it where r: "fill_c_loop nd strides dims itemsize = (st, it)" by force
  from fill_c_loop_spec[OF _ _ r] assms(1,2) have "it = itemsize * prod_list (map nz dims)" by simp
  with assms(3) False r show ?thesis by (auto simp add: array_fill_strides_def Let_def)
qed


text \<open>
  C6. For every shape, element size and order, \<open>_array_fill_strides\<close> writes one stride
  per axis. In Fortran order (\<open>FORTRAN\<close> set and \<open>CONTIGUOUS\<close> clear in \<open>inflag\<close>) the stride
  of axis \<open>i\<close> is the element size times the extents of the axes before \<open>i\<close>; otherwise
  (C order) it is the element size times the extents of the axes after \<open>i\<close>; a zero extent
  enters these products as 1; the arithmetic is that of \<open>size_t\<close>. The flag of the order
  used is set; for \<open>nd > 1\<close> exactly one of \<open>CONTIGUOUS\<close> and \<open>FORTRAN\<close> is set afterwards,
  for \<open>nd \<le> 1\<close> both are; no other flag changes.
\<close>

theorem array_fill_strides_layout:
  assumes "length dims = nd" "length strides = nd"
    and "array_fill_strides strides dims nd itemsize inflag objflags = (strides', objflags', sd)"
  shows "length strides' = nd \<and>
    (FORTRAN \<in> inflag \<and> CONTIGUOUS \<notin> inflag \<longrightarrow>
       (\<forall>i<nd. strides' ! i = itemsize * prod_list (map nz (take i dims))) \<and>
       FORTRAN \<in> objflags') \<and>
    (\<not> (FORTRAN \<in> inflag \<and> CONTIGUOUS \<notin> inflag) \<longrightarrow>
       (\<forall>i<nd. strides' ! i = itemsize * prod_list (map nz (drop (Suc i) dims))) \<and>
       CONTIGUOUS \<in> objflags') \<and>
    (nd > 1 \<longrightarrow> (CONTIGUOUS \<in> objflags') \<noteq> (FORTRAN \<in> objflags')) \<and>
    (nd \<le> 1 \<longrightarrow> CONTIGUOUS \<in> objflags' \<and> FORTRAN \<in> objflags') \<and>
    (\<forall>f. f \<noteq> CONTIGUOUS \<longrightarrow> f \<noteq> FORTRAN \<longrightarrow> (f \<in> objflags') = (f \<in> objflags))"
proof (cases "FORTRAN \<in> inflag \<and> CONTIGUOUS \<notin> inflag")
  case True
  obtain st it where r: "fill_f_loop 0 nd strides dims itemsize = (st, it)" by force
  from assms(3) True r have res: "strides' = st"
    "objflags' = (if nd > 1 then insert FORTRAN objflags - {CONTIGUOUS}
                  else insert CONTIGUOUS (insert FORTRAN objflags))"
    by (auto simp add: array_fill_strides_def Let_def)
  from fill_f_loop_spec[OF _ assms(2) assms(1) r]
  have "length st = nd" "\<forall>k<nd. st ! k = itemsize * prod_list (map nz (take k dims))"
    by simp_all
  with res True show ?thesis by auto
next
  case False
  obtain st it where r: "fill_c_loop nd strides dims itemsize = (st, it)" by force
  from assms(3) False r have res: "strides' = st"
    "objflags' = (if nd > 1 then insert CONTIGUOUS objflags - {FORTRAN}
                  else insert FORTRAN (insert CONTIGUOUS objflags))"
    by (auto simp add: array_fill_strides_def Let_def)
  from fill_c_loop_spec[OF _ _ r] assms(1,2)
  have "length st = nd" "\<forall>k<nd. st ! k = itemsize * prod_list (map nz (drop (Suc k) dims))"
    by simp_all
  with res False show ?thesis by auto
qed


theorem array_fill_strides_layout_witness:
  "length [2, 0, 4 :: npy_intp] = 3 \<and> length [0, 0, 0 :: npy_intp] = 3 \<and>
   array_fill_strides [0, 0, 0] [2, 0, 4] 3 8 {FORTRAN} {ALIGNED}
     = ([8, 16, 16], {FORTRAN, ALIGNED}, 64) \<and>
   [8, 16, 16 :: npy_intp] ! 0 = 8 * prod_list (map nz (take 0 [2, 0, 4])) \<and>
   [8, 16, 16 :: npy_intp] ! 1 = 8 * prod_list (map nz (take 1 [2, 0, 4])) \<and>
   [8, 16, 16 :: npy_intp] ! 2 = 8 * prod_list (map nz (take 2 [2, 0, 4])) \<and>
   (CONTIGUOUS \<in> {FORTRAN, ALIGNED}) \<noteq> (FORTRAN \<in> {FORTRAN, ALIGNED})"
proof -
  have f: "array_fill_strides [0, 0, 0] [2, 0, 4] 3 8 {FORTRAN} {ALIGNED}
             = ([8, 16, 16], {FORTRAN, ALIGNED}, 64)"
    by code_simp
  from array_fill_strides_layout [OF _ _ f] f show ?thesis by (simp add: nz_def)
qed

subsection \<open>The size check of the constructor\<close>

lemma nz_simps: "nz 0 = 1" "d \<noteq> 0 \<Longrightarrow> nz d = d"
  by (simp_all add: nz_def)

lemma check_dims_skip_zero:
  "check_dims dims largest sz = check_dims (filter (\<lambda>d. d \<noteq> 0) dims) largest sz"
  by (induction dims arbitrary: largest sz) auto

lemma check_dims_first_rejected:
  "i < length dims \<Longrightarrow> \<forall>j<i. accepted (bound_after largest (take j dims)) (dims ! j) \<Longrightarrow>
   \<not> accepted (bound_after largest (take i dims)) (dims ! i) \<Longrightarrow>
   check_dims dims largest sz =
     Inl (if dims ! i <s 0 then ValueError ''negative dimensions are not allowed''
          else ValueError ''array is too big.'')"
proof (induction dims arbitrary: i largest sz)
  case Nil
  then show ?case by simp
next
  case (Cons d ds)
  show ?case
  proof (cases i)
    case 0
    with Cons.prems show ?thesis
      by (auto simp: accepted_def word_sless_alt word_sle_eq signed_eq_0_iff)
  next
    case (Suc k)
    with Cons.prems(2) have acc: "accepted largest d" by fastforce
    have "check_dims ds (if d = 0 then largest else intp_div largest d) (if d = 0 then sz else sz * d) =
      Inl (if ds ! k <s 0 then ValueError ''negative dimensions are not allowed''
          else ValueError ''array is too big.'')"
    proof (rule Cons.IH)
      show "k < length ds" using Cons.prems(1) Suc by simp
      show "\<forall>j<k. accepted (bound_after (if d = 0 then largest else intp_div largest d) (take j ds)) (ds ! j)"
        using Cons.prems(2) Suc by (metis Suc_less_eq bound_after.simps(2) nth_Cons_Suc take_Suc_Cons)
      show "\<not> accepted (bound_after (if d = 0 then largest else intp_div largest d) (take k ds)) (ds ! k)"
        using Cons.prems(3) Suc by simp
    qed
    with acc Suc show ?thesis
      by (auto simp: accepted_def word_sless_alt word_sle_eq)
  qed
qed

lemma check_dims_all_accepted:
  "\<forall>j<length dims. accepted (bound_after largest (take j dims)) (dims ! j) \<Longrightarrow>
   check_dims dims largest sz = Inr (sz * prod_list (map nz dims), bound_after largest dims)"
proof (induction dims arbitrary: largest sz)
  case Nil
  then show ?case by simp
next
  case (Cons d ds)
  from Cons.prems have acc: "accepted largest d" by fastforce
  have "check_dims ds (if d = 0 then largest else intp_div largest d) (if d = 0 then sz else sz * d) =
     Inr ((if d = 0 then sz else sz * d) * prod_list (map nz ds),
          bound_after (if d = 0 then largest else intp_div largest d) ds)"
  proof (rule Cons.IH, intro allI impI)
    fix j assume "j < length ds"
    then have "Suc j < length (d # ds)" by simp
    with Cons.prems have "accepted (bound_after largest (take (Suc j) (d # ds))) ((d # ds) ! Suc j)"
      by blast
    then show "accepted (bound_after (if d = 0 then largest else intp_div largest d) (take j ds)) (ds ! j)"
      by simp
  qed
  with acc show ?case
    by (auto simp: accepted_def nz_simps word_sless_alt word_sle_eq mult.assoc)
qed


text \<open>
  C2. In a call of \<open>PyArray_NewFromDescr\<close> with a valid number of dimensions and a usable
  element size, the extents are checked in order against a bound that starts at
  \<open>NPY_MAX_INTP / elsize\<close> and is divided by every accepted non-zero extent; extents of 0
  are skipped (the check of a shape is the check of the shape without its zeros). At the
  first extent that is not accepted the call fails: with "negative dimensions are not
  allowed" when the extent is negative, with "array is too big." when it exceeds the
  bound. It then returns no array and has released the reference to the descriptor.
\<close>

theorem NewFromDescr_dimension_check:
  assumes "0 \<le> nd" "nd \<le> MAX_DIMS" "length dims = nat nd"
    and "elsize descr \<noteq> 0 \<or> PyDataType_ISSTRING descr"
    and "i < length dims"
    and "\<forall>j<i. accepted (bound_after (first_bound descr) (take j dims)) (dims ! j)"
    and "\<not> accepted (bound_after (first_bound descr) (take i dims)) (dims ! i)"
  shows "PyArray_NewFromDescr al descr nd dims strides data flags =
           \<lparr>result = None,
            error = Some (if dims ! i <s 0
                          then ValueError ''negative dimensions are not allowed''
                          else ValueError ''array is too big.''),
            descr_after = Py_DECREF descr\<rparr> \<and>
         check_dims dims (first_bound descr) 1 =
           check_dims (filter (\<lambda>d. d \<noteq> 0) dims) (first_bound descr) 1"
proof
  have chk: "check_dims dims (first_bound descr) 1 =
     Inl (if dims ! i <s 0 then ValueError ''negative dimensions are not allowed''
          else ValueError ''array is too big.'')"
    by (rule check_dims_first_rejected[OF assms(5,6,7)])
  from assms(1-4) chk
  show "PyArray_NewFromDescr al descr nd dims strides data flags =
           \<lparr>result = None,
            error = Some (if dims ! i <s 0
                          then ValueError ''negative dimensions are not allowed''
                          else ValueError ''array is too big.''),
            descr_after = Py_DECREF descr\<rparr>"
    by (auto simp: PyArray_NewFromDescr_def first_bound_def Let_def)
  show "check_dims dims (first_bound descr) 1 =
           check_dims (filter (\<lambda>d. d \<noteq> 0) dims) (first_bound descr) 1"
    by (rule check_dims_skip_zero)
qed

theorem NewFromDescr_dimension_check_witness:
  "PyArray_NewFromDescr
     \<lparr>tp_alloc_ok = True, PyDimMem_ok = True, PyDataMem_NEW = (\<lambda>n. Some 4096)\<rparr>
     \<lparr>elsize = 8, type_num = NPY_OTHER, ob_refcnt = 2\<rparr>
     3 [0, 0x4000000000000000, - 1] None None {}
   = \<lparr>result = None, error = Some (ValueError ''array is too big.''),
      descr_after = \<lparr>elsize = 8, type_num = NPY_OTHER, ob_refcnt = 1\<rparr>\<rparr> \<and>
   PyArray_NewFromDescr
     \<lparr>tp_alloc_ok = True, PyDimMem_ok = True, PyDataMem_NEW = (\<lambda>n. Some 4096)\<rparr>
     \<lparr>elsize = 8, type_num = NPY_OTHER, ob_refcnt = 2\<rparr>
     3 [0, 3, - 1] None None {}
   = \<lparr>result = None, error = Some (ValueError ''negative dimensions are not allowed''),
      descr_after = \<lparr>elsize = 8, type_num = NPY_OTHER, ob_refcnt = 1\<rparr>\<rparr>"
proof -
  let ?al = "\<lparr>tp_alloc_ok = True, PyDimMem_ok = True, PyDataMem_NEW = (\<lambda>n. Some (4096 :: npy_uintp))\<rparr>"
  let ?descr = "\<lparr>elsize = 8, type_num = NPY_OTHER, ob_refcnt = 2\<rparr>"
  have fb: "first_bound ?descr = 0x0FFFFFFFFFFFFFFF"
    by (simp add: first_bound_def NPY_MAX_INTP_def)
  have a: "PyArray_NewFromDescr ?al ?descr 3 [0, 0x4000000000000000, - 1] None None {} =
           \<lparr>result = None,
            error = Some (if [0, 0x4000000000000000, - 1 :: npy_intp] ! 1 <s 0
                          then ValueError ''negative dimensions are not allowed''
                          else ValueError ''array is too big.''),
            descr_after = Py_DECREF ?descr\<rparr>"
    by (rule NewFromDescr_dimension_check [where i = 1, THEN conjunct1])
       (simp_all add: MAX_DIMS_def accepted_def fb word_sless_alt word_sle_eq)
  have b: "PyArray_NewFromDescr ?al ?descr 3 [0, 3, - 1] None None {} =
           \<lparr>result = None,
            error = Some (if [0, 3, - 1 :: npy_intp] ! 2 <s 0
                          then ValueError ''negative dimensions are not allowed''
                          else ValueError ''array is too big.''),
            descr_after = Py_DECREF ?descr\<rparr>"
    by (rule NewFromDescr_dimension_check [where i = 2, THEN conjunct1])
       (simp_all add: MAX_DIMS_def accepted_def fb word_sless_alt word_sle_eq intp_div_def
          less_Suc_eq numeral_2_eq_2 signed_divide_int_def)
  from a b show ?thesis
    by (simp add: Py_DECREF_def word_sless_alt)
qed


subsection \<open>Shapes that pass the size check do not overflow\<close>

lemma sint_small: "0 \<le> k \<Longrightarrow> k < 2 ^ 63 \<Longrightarrow> sint (word_of_int k :: 64 word) = k"
proof -
  assume a: "0 \<le> k" "k < 2 ^ 63"
  have "- (2 ^ 63) \<le> (0 :: int)" by simp
  then have "- (2 ^ 63) \<le> k" using a(1) by (rule order_trans)
  then have "signed_take_bit 63 k = k"
    using a(2) by (rule signed_take_bit_int_eq_self)
  then show ?thesis by (simp add: sint_sbintrunc')
qed

lemma sint_nonneg_uint: 
  assumes "0 \<le> sint (d :: 64 word)" shows "sint d = uint d"
proof (cases "uint d < 2 ^ 63")
  case True
  have nn: "0 \<le> uint d" by simp
  have "- (2 ^ 63) \<le> (0 :: int)" by simp
  then have "- (2 ^ 63) \<le> uint d" using nn by (rule order_trans)
  then have "signed_take_bit 63 (uint d) = uint d"
    using True by (rule signed_take_bit_int_eq_self)
  then show ?thesis by (simp add: sint_uint)
next
  case False
  then have "2 ^ 63 \<le> uint d" by simp
  from signed_take_bit_int_less_eq[OF this] have "sint d \<le> uint d - 2 ^ 64"
    by (simp add: sint_uint)
  moreover have "uint d < 2 ^ 64" using uint_bounded[of d] by simp
  ultimately show ?thesis using assms by linarith
qed

lemma sint_nonneg_unat: "0 \<le> sint (d :: 64 word) \<Longrightarrow> sint d = int (unat d)"
  by (simp add: sint_nonneg_uint)


lemma intp_div_pos:
  assumes "0 < sint d" "sint d \<le> sint l"
  shows "sint (intp_div l d) = sint l div sint d"
proof -
  have e: "sint l sdiv sint d = sint l div sint d"
    using assms by (simp add: signed_divide_int_def sgn_if)
  have nn: "0 \<le> sint l div sint d" using assms by (simp add: pos_imp_zdiv_nonneg_iff)
  have "sint l div sint d \<le> sint l div 1"
    using assms by (intro zdiv_mono2) auto
  then have le: "sint l div sint d \<le> sint l" by simp
  have "sint l < 2 ^ 63" using sint_lt[of l] by simp
  with le have "sint l div sint d < 2 ^ 63" by linarith
  with nn show ?thesis by (simp add: intp_div_def e sint_small)
qed

lemma check_dims_product_bound:
  "check_dims dims l sz = Inr r \<Longrightarrow> 0 \<le> sint l \<Longrightarrow>
     int (prod_list (map (\<lambda>d. unat (nz d)) dims)) * sint (snd r) \<le> sint l \<and>
     0 \<le> sint (snd r) \<and>
     (1 \<le> sint l \<or> (\<exists>d\<in>set dims. d \<noteq> 0) \<longrightarrow> 1 \<le> sint (snd r))"
proof (induction dims arbitrary: l sz)
  case Nil
  then show ?case by auto
next
  case (Cons d ds)
  show ?case
  proof (cases "d = 0")
    case True
    with Cons.prems have "check_dims ds l sz = Inr r" by simp
    from Cons.IH[OF this Cons.prems(2)] True show ?thesis by (simp add: nz_def)
  next
    case False
    then have sd0: "sint d \<noteq> 0" by (simp add: signed_eq_0_iff)
    from False Cons.prems(1) have "\<not> sint d < 0" "\<not> sint l < sint d"
      and run: "check_dims ds (intp_div l d) (sz * d) = Inr r"
      by (auto simp: word_sless_alt split: if_splits)
    with sd0 have acc: "0 < sint d" "sint d \<le> sint l" by linarith+
    have l2: "sint (intp_div l d) = sint l div sint d" by (rule intp_div_pos[OF acc])
    have l2pos: "1 \<le> sint l div sint d"
      using acc pos_imp_zdiv_pos_iff[of "sint d" "sint l"] by linarith
    from Cons.IH[OF run] l2 l2pos
    have ih: "int (prod_list (map (\<lambda>d. unat (nz d)) ds)) * sint (snd r) \<le> sint l div sint d"
             "1 \<le> sint (snd r)"
      by auto
    have du: "int (unat (nz d)) = sint d"
      using False acc by (simp add: nz_def sint_nonneg_unat)
    have "sint d * (int (prod_list (map (\<lambda>d. unat (nz d)) ds)) * sint (snd r))
            \<le> sint d * (sint l div sint d)"
      using ih(1) acc(1) by (simp add: mult_left_mono)
    also have "\<dots> \<le> sint l"
      using acc(1) by (metis Cons.prems(2) mult.commute pos_mod_sign add_le_same_cancel1
          div_mult_mod_eq add.commute le_add_same_cancel1)
    finally have "sint d * (int (prod_list (map (\<lambda>d. unat (nz d)) ds)) * sint (snd r)) \<le> sint l" .
    with du ih(2) show ?thesis by (simp add: mult.assoc)
  qed
qed


lemma uint_small_sint: 
  assumes "uint (d :: 64 word) < 2 ^ 63" shows "sint d = uint d"
proof -
  have nn: "0 \<le> uint d" by simp
  have "- (2 ^ 63) \<le> (0 :: int)" by simp
  then have "- (2 ^ 63) \<le> uint d" using nn by (rule order_trans)
  then have "signed_take_bit 63 (uint d) = uint d"
    using assms by (rule signed_take_bit_int_eq_self)
  then show ?thesis by (simp add: sint_uint)
qed

lemma prod_nz_all_zero: "\<forall>d\<in>set ds. d = 0 \<Longrightarrow> prod_list (map (\<lambda>d. unat (nz d)) ds) = 1"
  by (induction ds) (auto simp: nz_def)

lemma check_dims_no_overflow:
  assumes "check_dims dims (NPY_MAX_INTP div sd) 1 = Inr r" "sd \<noteq> 0"
  shows "unat sd * prod_list (map (\<lambda>d. unat (nz d)) dims) < 2 ^ 64"
proof (cases "\<forall>d\<in>set dims. d = 0")
  case True
  have "unat sd < 2 ^ 64" using unsigned_less[of sd, where 'a = nat] by simp
  with True show ?thesis by (simp add: prod_nz_all_zero)
next
  case False
  let ?P = "prod_list (map (\<lambda>d. unat (nz d)) dims)"
  let ?l = "NPY_MAX_INTP div sd"
  have "uint sd \<noteq> 0" using assms(2) by (simp add: uint_0_iff)
  moreover have "0 \<le> uint sd" by simp
  ultimately have sdpos: "0 < uint sd" by linarith
  have ul: "uint ?l = (2 ^ 63 - 1) div uint sd"
    by (simp add: uint_div NPY_MAX_INTP_def)
  have "(2 ^ 63 - 1) div uint sd \<le> (2 ^ 63 - 1 :: int) div 1"
    using sdpos by (intro zdiv_mono2) auto
  then have ub: "uint ?l \<le> 2 ^ 63 - 1" using ul by simp
  then have sl: "sint ?l = uint ?l" by (intro uint_small_sint) simp
  have l0: "0 \<le> sint ?l" using sl by simp
  from check_dims_product_bound[OF assms(1) l0] False
  have b: "int ?P * sint (snd r) \<le> sint ?l" "1 \<le> sint (snd r)" by auto
  have "int ?P * 1 \<le> int ?P * sint (snd r)"
    using b(2) by (intro mult_left_mono) auto
  with b(1) have "int ?P \<le> (2 ^ 63 - 1) div uint sd" using sl ul by simp
  then have "uint sd * int ?P \<le> uint sd * ((2 ^ 63 - 1) div uint sd)"
    using sdpos by (simp add: mult_left_mono)
  also have "\<dots> \<le> 2 ^ 63 - 1"
  proof -
    have "uint sd * ((2 ^ 63 - 1) div uint sd) + (2 ^ 63 - 1) mod uint sd = 2 ^ 63 - 1"
      by (rule mult_div_mod_eq)
    moreover have "0 \<le> (2 ^ 63 - 1) mod uint sd" using sdpos by simp
    ultimately show ?thesis by linarith
  qed
  also have "\<dots> < (2 ^ 64 :: int)" by simp
  finally have "uint sd * int ?P < 2 ^ 64" .
  then have "int (unat sd * ?P) < int (2 ^ 64)" by simp
  then show ?thesis by (simp only: of_nat_less_iff)
qed

text \<open>
  C7. The claim is that the size returned by \<open>_array_fill_strides\<close> is
  \<open>elsize * product(shape)\<close>, also when an extent is 0. The code multiplies by
  \<open>dims[i] ? dims[i] : 1\<close>: for the shape \<open>(0)\<close> and element size 8 it returns 8, not 0.
\<close>

theorem array_fill_strides_zero_extent:
  "snd (snd (array_fill_strides [0] [0] 1 8 {} {})) = 8 \<and> (8 :: 64 word) * prod_list [0] = 0"
  by code_simp

text \<open>
  C7, as amended. For every shape and order the size returned is the element size times
  the product of the extents in which every zero extent counts as 1 (in \<open>size_t\<close>
  arithmetic); it is \<open>elsize * product(shape)\<close> when no extent is 0; and for a valid
  shape, one that passes the size check of the constructor for this element size, the
  equation holds for the numbers themselves: nothing wraps around.
\<close>

theorem array_fill_strides_size:
  assumes "length dims = nd" "length strides = nd"
    and "array_fill_strides strides dims nd itemsize inflag objflags = (strides', objflags', sd)"
  shows "sd = itemsize * prod_list (map nz dims) \<and>
         (0 \<notin> set dims \<longrightarrow> sd = itemsize * prod_list dims) \<and>
         (itemsize \<noteq> 0 \<and> check_dims dims (NPY_MAX_INTP div itemsize) 1 = Inr r \<longrightarrow>
            unat sd = unat itemsize * prod_list (map (\<lambda>d. unat (nz d)) dims))"
  using array_fill_strides_ret[OF assms] check_dims_no_overflow[of dims itemsize r]
  by (simp add: map_nz_id unat_prod_nz)


theorem array_fill_strides_size_witness:
  "length [2, 3, 4 :: npy_intp] = 3 \<and> length [0, 0, 0 :: npy_intp] = 3 \<and>
   array_fill_strides [0, 0, 0] [2, 3, 4] 3 8 {} {} = ([96, 32, 8], {CONTIGUOUS}, 192) \<and>
   (0 :: npy_intp) \<notin> set [2, 3, 4] \<and>
   (192 :: 64 word) = 8 * prod_list [2, 3, 4] \<and>
   check_dims [2, 3, 4] (NPY_MAX_INTP div 8) 1 = Inr (24, 48038396025285290) \<and>
   unat (192 :: 64 word) = unat (8 :: 64 word) * prod_list (map (\<lambda>d. unat (nz d)) [2, 3, 4])"
proof -
  have c: "array_fill_strides [0, 0, 0] [2, 3, 4] 3 8 {} {} = ([96, 32, 8], {CONTIGUOUS}, 192)"
    by code_simp
  have z: "(0 :: npy_intp) \<notin> set [2, 3, 4]" by simp
  have u: "check_dims [2, 3, 4] (NPY_MAX_INTP div 8) 1 = Inr (24, 48038396025285290)"
    by code_simp
  from array_fill_strides_size [OF _ _ c, where r = "(24, 48038396025285290)"] c z u
  show ?thesis by simp
qed

subsection \<open>Discovery of the next axis\<close>














subsection \<open>Moving between overlapping arrays\<close>














subsection \<open>Length overflow in the range generator\<close>

lemma safe_ceil_overflow_iff:
  "safe_ceil_to_intp value = Ceil_Overflow \<longleftrightarrow>
     (value = PosInf \<or> value = NegInf \<or>
      (\<exists>r. value = Finite r \<and> (\<lceil>r\<rceil> < - (2 ^ 63) \<or> 2 ^ 63 < \<lceil>r\<rceil>)))"
proof (cases "value")
  case (Finite r)
  have "(real_of_int \<lceil>r\<rceil> < - (2 ^ 63)) = (\<lceil>r\<rceil> < - (2 ^ 63))"
    by (metis of_int_less_iff of_int_minus of_int_numeral of_int_power)
  moreover have "((2 ^ 63 :: real) < real_of_int \<lceil>r\<rceil>) = (2 ^ 63 < \<lceil>r\<rceil>)"
    by (metis of_int_less_iff of_int_numeral of_int_power)
  ultimately show ?thesis using Finite
    by (auto simp: safe_ceil_to_intp_def NPY_MIN_INTP_as_double_def NPY_MAX_INTP_as_double_def
                   Let_def)
qed (simp_all add: safe_ceil_to_intp_def NPY_MIN_INTP_as_double_def NPY_MAX_INTP_as_double_def)

text \<open>
  C4. The claim is that a range whose length is out of the \<open>npy_intp\<close> range makes
  \<open>PyArray_Arange\<close> and \<open>PyArray_ArangeObj\<close> fail with \<open>OverflowError\<close>. \<open>PyArray_ArangeObj\<close>
  replaces the \<open>OverflowError\<close> of the length computation by a \<open>ValueError\<close>: for
  \<open>start = 0\<close>, \<open>stop = 2\<^sup>1\<^sup>0\<^sup>0\<close>, \<open>step = 1\<close> it returns no array and leaves
  \<open>ValueError("Maximum allowed size exceeded")\<close>.
\<close>

theorem ArangeObj_overflow_not_OverflowError:
  "PyArray_ArangeObj float_api (new_buffer (0 :: int))
     \<lparr>setitem = int_setitem, fill = Some arith_fill\<rparr> False id False
     (Finite 0) (Some (Finite (2 ^ 100))) (Some (Finite 1))
   = Returns None (Some (ValueError ''Maximum allowed size exceeded''))"
  by code_simp

text \<open>
  C4, as amended. For every start, stop and step whose quotient, as computed, is
  infinite or has a ceiling below \<open>-2\<^sup>6\<^sup>3\<close> or above \<open>2\<^sup>6\<^sup>3\<close>, \<open>_safe_ceil_to_intp\<close> reports
  the overflow, and \<open>PyArray_ArangeObj\<close> returns no array and fails with
  \<open>ValueError("Maximum allowed size exceeded")\<close>.
\<close>

theorem ArangeObj_overflow_is_ValueError:
  assumes "PyNumber_Subtract api stop start = Inr d"
    and "PyNumber_TrueDivide api d step = Inr q"
    and "\<not> (cmplx \<and> PyComplex_Check api q)"
    and "PyFloat_AsDouble api q = Inr quot"
    and "quot = PosInf \<or> quot = NegInf \<or>
         (\<exists>r. quot = Finite r \<and> (\<lceil>r\<rceil> < - (2 ^ 63) \<or> 2 ^ 63 < \<lceil>r\<rceil>))"
  shows "safe_ceil_to_intp quot = Ceil_Overflow \<and>
         PyArray_ArangeObj api new funcs swap byteswap cmplx start (Some stop) (Some step) =
           Returns None (Some (ValueError ''Maximum allowed size exceeded''))"
proof -
  from assms(5) have ov: "safe_ceil_to_intp quot = Ceil_Overflow"
    by (simp only: safe_ceil_overflow_iff)
  with assms(1-4) have "calc_length api start stop step cmplx =
      Calc (- 1) None (Some (OverflowError ''arange: overflow while computing length''))"
    by (auto simp: calc_length_def)
  then have "PyArray_ArangeObj api new funcs swap byteswap cmplx start (Some stop) (Some step) =
           Returns None (Some (ValueError ''Maximum allowed size exceeded''))"
    by (simp add: PyArray_ArangeObj_def)
  with ov show ?thesis by simp
qed

theorem ArangeObj_overflow_is_ValueError_witness:
  "safe_ceil_to_intp (Finite (2 ^ 99)) = Ceil_Overflow \<and>
   PyArray_ArangeObj float_api (new_buffer (0 :: int))
     \<lparr>setitem = int_setitem, fill = Some arith_fill\<rparr> True id False
     (Finite 0) (Some (Finite (2 ^ 100))) (Some (Finite 2))
   = Returns None (Some (ValueError ''Maximum allowed size exceeded''))"
proof -
  have c: "\<lceil>2 ^ 99 :: real\<rceil> = 2 ^ 99"
    by (metis ceiling_of_int of_int_numeral of_int_power)
  show ?thesis
    by (rule ArangeObj_overflow_is_ValueError
               [where api = float_api and d = "Finite (2 ^ 100)" and q = "Finite (2 ^ 99)"
                  and quot = "Finite (2 ^ 99)"])
       (simp_all add: float_api_def c)
qed

text \<open>
  \<open>PyArray_Arange\<close> sets the \<open>OverflowError\<close> and goes on with the unassigned length: if
  that happens to be 2, it returns a 2-element array with the exception set.
\<close>

lemma PyArray_Arange_overflow_goes_on:
  "PyArray_Arange exact_fpu id (new_buffer 0) \<lparr>setitem = int_setitem, fill = Some arith_fill\<rparr> 2
     (Finite 0) (Finite (2 ^ 100)) (Finite 1)
   = Returns (Some [0 :: int, 1])
       (Some (OverflowError ''arange: overflow while computing length''))"
  by code_simp

subsection \<open>The elements of a range\<close>

lemma arith_fill_contract: "fill_contract (arith_fill :: 'e::comm_ring_1 list \<Rightarrow> _)"
proof (unfold fill_contract_def, intro allI impI)
  fix buffer :: "'e list" and n :: int
  assume a: "2 < n \<and> length buffer = nat n"
  have pt: "\<forall>i<nat n. (if i < 2 then buffer ! i
                     else buffer ! 0 + of_nat i * (buffer ! 1 - buffer ! 0))
                  = buffer ! 0 + of_nat i * (buffer ! 1 - buffer ! 0)"
  proof (intro allI impI)
    fix i assume "i < nat n"
    consider "i = 0" | "i = 1" | "2 \<le> i" by linarith
    then show "(if i < 2 then buffer ! i
                else buffer ! 0 + of_nat i * (buffer ! 1 - buffer ! 0))
               = buffer ! 0 + of_nat i * (buffer ! 1 - buffer ! 0)"
      by cases simp_all
  qed
  have "\<forall>i<nat n. map (\<lambda>i. if i < 2 then buffer ! i
                     else buffer ! 0 + of_nat i * (buffer ! 1 - buffer ! 0)) [0..<nat n] ! i
                  = buffer ! 0 + of_nat i * (buffer ! 1 - buffer ! 0)"
  proof (intro allI impI)
    fix i assume i: "i < nat n"
    then have "map (\<lambda>i. if i < 2 then buffer ! i
                     else buffer ! 0 + of_nat i * (buffer ! 1 - buffer ! 0)) [0..<nat n] ! i
          = (if i < 2 then buffer ! i
                     else buffer ! 0 + of_nat i * (buffer ! 1 - buffer ! 0))"
      by (simp only: nth_map length_upt diff_zero nth_upt add_0)
    also have "\<dots> = buffer ! 0 + of_nat i * (buffer ! 1 - buffer ! 0)"
      using pt i by blast
    finally show "map (\<lambda>i. if i < 2 then buffer ! i
                     else buffer ! 0 + of_nat i * (buffer ! 1 - buffer ! 0)) [0..<nat n] ! i
                  = buffer ! 0 + of_nat i * (buffer ! 1 - buffer ! 0)" .
  qed
  moreover have "arith_fill buffer n =
      Some (map (\<lambda>i. if i < 2 then buffer ! i
                     else buffer ! 0 + of_nat i * (buffer ! 1 - buffer ! 0)) [0..<nat n])"
    by (simp add: arith_fill_def)
  moreover have "length (map (\<lambda>i. if i < 2 then buffer ! i
                     else buffer ! 0 + of_nat i * (buffer ! 1 - buffer ! 0)) [0..<nat n]) = nat n"
    by simp
  ultimately show "\<exists>filled. arith_fill buffer n = Some filled \<and> length filled = nat n \<and>
           (\<forall>i<nat n. filled ! i = buffer ! 0 + of_nat i * (buffer ! 1 - buffer ! 0))"
    by blast
qed

text \<open>
  C5. Let the length computed by \<open>PyArray_Arange\<close> be \<open>len\<close>, and let the allocation
  succeed. If \<open>len \<le> 0\<close> the result is a zero-length array and no exception. If
  \<open>len \<ge> 1\<close>, with \<open>setitem\<close> accepting \<open>start\<close>, and \<open>start + step\<close> when \<open>len \<ge> 2\<close>, and with
  a fill function that meets its contract when \<open>len > 2\<close>, the result is an array of \<open>len\<close>
  elements and no exception: element 0 is \<open>start\<close> as stored by \<open>setitem\<close>, element 1 is
  \<open>start + step\<close> (one addition) as stored by \<open>setitem\<close>, and element \<open>i \<ge> 2\<close> continues
  the progression of these two. If \<open>len > 2\<close> and the type has no fill function, the call
  fails with \<open>ValueError("no fill-function for data-type.")\<close>.
\<close>

theorem PyArray_Arange_progression:
  fixes funcs :: "('o, 'e::comm_ring_1) PyArray_ArrFuncs"
  assumes "safe_ceil_to_intp (fdiv fp (fsub fp stop start) step) = Ceil_OK len"
    and "PyArray_New (if len \<le> 0 then 0 else len) = Inr buffer"
    and "length buffer = nat len"
  shows
    "(len \<le> 0 \<longrightarrow>
        PyArray_Arange fp FromDouble PyArray_New funcs uninit start stop step
          = Returns (Some []) None) \<and>
     (1 \<le> len \<and> setitem funcs (FromDouble start) = Some e0 \<and>
      (2 \<le> len \<longrightarrow> setitem funcs (FromDouble (fadd fp start step)) = Some e1) \<and>
      (2 < len \<longrightarrow> (\<exists>f. fill funcs = Some f \<and> fill_contract f)) \<longrightarrow>
        (\<exists>xs. PyArray_Arange fp FromDouble PyArray_New funcs uninit start stop step
                = Returns (Some xs) None \<and>
              int (length xs) = len \<and> xs ! 0 = e0 \<and> (2 \<le> len \<longrightarrow> xs ! 1 = e1) \<and>
              (\<forall>i. 2 \<le> i \<and> int i < len \<longrightarrow> xs ! i = e0 + of_nat i * (e1 - e0)))) \<and>
     (2 < len \<and> setitem funcs (FromDouble start) = Some e0 \<and>
      setitem funcs (FromDouble (fadd fp start step)) = Some e1 \<and> fill funcs = None \<longrightarrow>
        PyArray_Arange fp FromDouble PyArray_New funcs uninit start stop step
          = Returns None (Some (ValueError ''no fill-function for data-type.'')))"
proof (intro conjI impI)
  assume "len \<le> 0"
  with assms show "PyArray_Arange fp FromDouble PyArray_New funcs uninit start stop step
          = Returns (Some []) None"
    by (simp add: PyArray_Arange_def)
next
  assume "2 < len \<and> setitem funcs (FromDouble start) = Some e0 \<and>
      setitem funcs (FromDouble (fadd fp start step)) = Some e1 \<and> fill funcs = None"
  with assms show "PyArray_Arange fp FromDouble PyArray_New funcs uninit start stop step
          = Returns None (Some (ValueError ''no fill-function for data-type.''))"
    by (simp add: PyArray_Arange_def)
next
  assume a: "1 \<le> len \<and> setitem funcs (FromDouble start) = Some e0 \<and>
      (2 \<le> len \<longrightarrow> setitem funcs (FromDouble (fadd fp start step)) = Some e1) \<and>
      (2 < len \<longrightarrow> (\<exists>f. fill funcs = Some f \<and> fill_contract f))"
  then have pos: "1 \<le> len" and s0: "setitem funcs (FromDouble start) = Some e0" by auto
  from assms(2) pos have new: "PyArray_New len = Inr buffer" by simp
  consider "len = 1" | "len = 2" | "2 < len" using pos by linarith
  then show "\<exists>xs. PyArray_Arange fp FromDouble PyArray_New funcs uninit start stop step
                = Returns (Some xs) None \<and>
              int (length xs) = len \<and> xs ! 0 = e0 \<and> (2 \<le> len \<longrightarrow> xs ! 1 = e1) \<and>
              (\<forall>i. 2 \<le> i \<and> int i < len \<longrightarrow> xs ! i = e0 + of_nat i * (e1 - e0))"
  proof cases
    case 1
    with assms(1,3) new s0
    have "PyArray_Arange fp FromDouble PyArray_New funcs uninit start stop step
            = Returns (Some (buffer[0 := e0])) None"
      by (simp add: PyArray_Arange_def)
    with 1 assms(3) show ?thesis by (intro exI[of _ "buffer[0 := e0]"]) auto
  next
    case 2
    with a have s1: "setitem funcs (FromDouble (fadd fp start step)) = Some e1" by simp
    with 2 assms(1,3) new s0
    have "PyArray_Arange fp FromDouble PyArray_New funcs uninit start stop step
            = Returns (Some (buffer[0 := e0, 1 := e1])) None"
      by (simp add: PyArray_Arange_def)
    with 2 assms(3) show ?thesis by (intro exI[of _ "buffer[0 := e0, 1 := e1]"]) auto
  next
    case 3
    with a have s1: "setitem funcs (FromDouble (fadd fp start step)) = Some e1" by simp
    from 3 a obtain f where f: "fill funcs = Some f" "fill_contract f" by blast
    let ?b = "buffer[0 := e0, 1 := e1]"
    from assms(3) have lb: "length ?b = nat len" by simp
    with f(2) 3 obtain filled where fl: "f ?b len = Some filled" "length filled = nat len"
      "\<forall>i<nat len. filled ! i = ?b ! 0 + of_nat i * (?b ! 1 - ?b ! 0)"
      unfolding fill_contract_def by blast
    from assms(3) 3 have b01: "?b ! 0 = e0" "?b ! 1 = e1" by simp_all
    from 3 assms(1) new s0 s1 f(1) fl(1)
    have res: "PyArray_Arange fp FromDouble PyArray_New funcs uninit start stop step
            = Returns (Some filled) None"
      by (simp add: PyArray_Arange_def)
    have "filled ! 0 = e0" using fl(3) 3 b01 by simp
    moreover have "filled ! 1 = e1" using fl(3)[rule_format, of 1] 3 b01 by simp
    moreover have "\<forall>i. 2 \<le> i \<and> int i < len \<longrightarrow> filled ! i = e0 + of_nat i * (e1 - e0)"
      using fl(3) b01 by auto
    ultimately show ?thesis using res fl(2) 3 by (intro exI[of _ filled]) simp
  qed
qed

theorem PyArray_Arange_progression_witness:
  "safe_ceil_to_intp (fdiv exact_fpu (fsub exact_fpu (Finite 5) (Finite 0)) (Finite 1)) = Ceil_OK 5 \<and>
   new_buffer (0 :: int) 5 = Inr [0, 0, 0, 0, 0] \<and>
   int_setitem (Finite 0) = Some 0 \<and>
   int_setitem (fadd exact_fpu (Finite 0) (Finite 1)) = Some 1 \<and>
   fill_contract (arith_fill :: int list \<Rightarrow> int \<Rightarrow> int list option) \<and>
   (\<exists>xs. PyArray_Arange exact_fpu id (new_buffer 0)
            \<lparr>setitem = int_setitem, fill = Some arith_fill\<rparr> 0
            (Finite 0) (Finite 5) (Finite 1) = Returns (Some xs) None \<and>
         xs = [0, 1, 2, 3, 4] \<and> xs ! 4 = 0 + of_nat 4 * (1 - 0)) \<and>
   PyArray_Arange exact_fpu id (new_buffer 0) \<lparr>setitem = int_setitem, fill = Some arith_fill\<rparr> 0
     (Finite 0) (Finite 0) (Finite 1) = Returns (Some ([] :: int list)) None \<and>
   PyArray_Arange exact_fpu id (new_buffer 0) \<lparr>setitem = int_setitem, fill = Some arith_fill\<rparr> 0
     (Finite 10) (Finite 0) (Finite 1) = Returns (Some ([] :: int list)) None"
proof -
  let ?funcs = "\<lparr>setitem = int_setitem, fill = Some (arith_fill :: int list \<Rightarrow> _)\<rparr>"
  have c: "safe_ceil_to_intp (fdiv exact_fpu (fsub exact_fpu (Finite 0) (Finite 10)) (Finite 1))
             = Ceil_OK (- 10)"
    by code_simp
  have n: "new_buffer (0 :: int) (if (- 10 :: int) \<le> 0 then 0 else - 10) = Inr []"
    by (simp add: new_buffer_def)
  have a: "PyArray_Arange exact_fpu id (new_buffer 0) ?funcs 0 (Finite 10) (Finite 0) (Finite 1)
             = Returns (Some []) None"
    using PyArray_Arange_progression
            [where fp = exact_fpu and start = "Finite 10" and stop = "Finite 0"
               and step = "Finite 1" and len = "- 10" and PyArray_New = "new_buffer 0"
               and buffer = "[]" and funcs = ?funcs and FromDouble = id and uninit = 0,
             OF c n, THEN conjunct1]
    by simp
  have c5: "safe_ceil_to_intp (fdiv exact_fpu (fsub exact_fpu (Finite 5) (Finite 0)) (Finite 1))
              = Ceil_OK 5"
    by code_simp
  have n5: "new_buffer (0 :: int) 5 = Inr [0, 0, 0, 0, 0]"
    by code_simp
  have s0: "int_setitem (Finite 0) = Some 0" by simp
  have s1: "int_setitem (fadd exact_fpu (Finite 0) (Finite 1)) = Some 1"
    by (simp add: exact_fpu_def)
  have "\<exists>xs. PyArray_Arange exact_fpu id (new_buffer 0) ?funcs 0 (Finite 0) (Finite 5) (Finite 1)
                = Returns (Some xs) None \<and>
              int (length xs) = 5 \<and> xs ! 0 = 0 \<and> (2 \<le> (5 :: int) \<longrightarrow> xs ! 1 = 1) \<and>
              (\<forall>i. 2 \<le> i \<and> int i < 5 \<longrightarrow> xs ! i = 0 + of_nat i * (1 - 0))"
    by (rule PyArray_Arange_progression
               [where fp = exact_fpu and start = "Finite 0" and stop = "Finite 5"
                  and step = "Finite 1" and len = 5 and PyArray_New = "new_buffer 0"
                  and buffer = "[0, 0, 0, 0, 0]" and funcs = ?funcs and FromDouble = id
                  and uninit = 0 and ?e0.0 = 0 and ?e1.0 = 1,
                THEN conjunct2, THEN conjunct1, rule_format])
       (simp_all add: c5 n5 s0 s1 arith_fill_contract)
  then obtain xs where xs:
    "PyArray_Arange exact_fpu id (new_buffer 0) ?funcs 0 (Finite 0) (Finite 5) (Finite 1)
       = Returns (Some xs) None"
    "\<forall>i. 2 \<le> i \<and> int i < 5 \<longrightarrow> xs ! i = 0 + of_nat i * (1 - 0)"
    by blast
  have b: "PyArray_Arange exact_fpu id (new_buffer 0) ?funcs 0 (Finite 0) (Finite 5) (Finite 1)
             = Returns (Some [0, 1, 2, 3, 4]) None"
    by code_simp
  with xs have "xs = [0, 1, 2, 3, 4]" "xs ! 4 = 0 + of_nat 4 * (1 - 0)" by simp_all
  with xs(1) have e: "\<exists>xs. PyArray_Arange exact_fpu id (new_buffer 0) ?funcs 0
            (Finite 0) (Finite 5) (Finite 1) = Returns (Some xs) None \<and>
         xs = [0, 1, 2, 3, 4] \<and> xs ! 4 = 0 + of_nat 4 * (1 - 0)"
    by blast
  have d: "PyArray_Arange exact_fpu id (new_buffer 0) ?funcs 0 (Finite 0) (Finite 0) (Finite 1)
             = Returns (Some []) None"
    by code_simp
  from a c5 n5 s0 s1 arith_fill_contract [where 'e = int] e d show ?thesis by blast
qed

subsection \<open>Overlap of a zero-size array\<close>

text \<open>
  C10. The claim is that a zero-size array gets an empty extent, so that it overlaps no
  array and \<open>PyArray_MoveInto\<close> copies directly. The extent is empty, but
  \<open>_arrays_overlap\<close> tests \<open>start1 < end2 && start2 < end1\<close>, which holds for an empty
  range whose address lies strictly inside the other range. Here a \<open>0 \<times> 3\<close> view at
  address 112 is moved into from the \<open>3 \<times> 3\<close> array of 4-byte items at address 100 that
  it is a view of: the two are reported to overlap and the first call made is the
  allocation of the temporary.
\<close>

theorem zero_size_view_overlaps:
  "get_memory_extents
     \<lparr>PyArray_DATA = 112, PyArray_DIMS = [0, 3], PyArray_STRIDES = [12, 4],
      PyArray_ITEMSIZE = 4, PyArray_FLAGS = {CONTIGUOUS}\<rparr> = (112, 112) \<and>
   get_memory_extents
     \<lparr>PyArray_DATA = 100, PyArray_DIMS = [3, 3], PyArray_STRIDES = [12, 4],
      PyArray_ITEMSIZE = 4, PyArray_FLAGS = {CONTIGUOUS}\<rparr> = (100, 136) \<and>
   arrays_overlap
     \<lparr>PyArray_DATA = 112, PyArray_DIMS = [0, 3], PyArray_STRIDES = [12, 4],
      PyArray_ITEMSIZE = 4, PyArray_FLAGS = {CONTIGUOUS}\<rparr>
     \<lparr>PyArray_DATA = 100, PyArray_DIMS = [3, 3], PyArray_STRIDES = [12, 4],
      PyArray_ITEMSIZE = 4, PyArray_FLAGS = {CONTIGUOUS}\<rparr> \<and>
   hd (snd (PyArray_MoveInto log_copy log_new log_decref
     \<lparr>PyArray_DATA = 112, PyArray_DIMS = [0, 3], PyArray_STRIDES = [12, 4],
      PyArray_ITEMSIZE = 4, PyArray_FLAGS = {CONTIGUOUS}\<rparr>
     \<lparr>PyArray_DATA = 100, PyArray_DIMS = [3, 3], PyArray_STRIDES = [12, 4],
      PyArray_ITEMSIZE = 4, PyArray_FLAGS = {CONTIGUOUS}\<rparr> []))
     = New_From_Descr 4 [0, 3] {}"
  by code_simp

end
